theory Spec2Isabelle
  imports Complex_Main
begin

section \<open>Data model\<close>

text \<open>
  The store backend keeps three collections that matter for checkout: products, carts
  and orders. A JavaScript Number is modelled as an exact rational (\<open>number\<close>): sums,
  products and comparisons are the mathematical ones, without the rounding of binary
  floating point. An ObjectId is held as the string its \<open>toString()\<close> gives. Request fields
  are taken with the types the controllers use them at (quantities and prices are numbers).
\<close>

type_synonym number = rat
type_synonym objectId = string

text \<open>models/Product.js: the fields the checkout controllers read or write.\<close>

record product =
  p_name :: string
  p_price :: number
  p_stock :: number
  p_images :: "string list"

text \<open>
  models/Cart.js: \<open>cartItemSchema\<close> and \<open>cartSchema\<close>. The \<open>user\<close> of a cart is the key
  under which the cart collection holds it (see \<open>db\<close> below).
\<close>

record cartItem =
  ci_id :: objectId
  ci_product :: objectId
  ci_quantity :: number
  ci_price :: number

record cart =
  c_items :: "cartItem list"
  c_totalPrice :: number

text \<open>
  An order line, as sent in a request body (\<open>items\<close>, \<open>orderItems\<close>) and as stored on an
  order: \<open>{product, name, quantity, price, image}\<close>.
\<close>

record orderItem =
  oi_product :: objectId
  oi_name :: string
  oi_quantity :: number
  oi_price :: number
  oi_image :: string

text \<open>
  A time value: a reading of \<open>Date.now()\<close> (milliseconds), or the text a client sends.
\<close>

datatype timestamp = Millis nat | Text string

record paymentResult =
  pr_id :: string
  pr_status :: string
  pr_update_time :: timestamp
  pr_email_address :: string

text \<open>
  Modelled from the spec: models/Order.js is not among the sources. The record holds the
  fields the spec's data model lists for an Order and the controllers assign: owner, item
  snapshot, shipping address, payment method, the four price fields, the payment and
  delivery flags with their timestamps, the status and the payment result.
\<close>

record order =
  o_id :: objectId
  o_user :: objectId
  o_orderItems :: "orderItem list"
  o_shippingAddress :: string
  o_paymentMethod :: string
  o_paymentResult :: "paymentResult option"
  o_itemsPrice :: number
  o_taxPrice :: number
  o_shippingPrice :: number
  o_totalPrice :: number
  o_isPaid :: bool
  o_paidAt :: "nat option"
  o_isDelivered :: bool
  o_deliveredAt :: "nat option"
  o_status :: string

text \<open>
  The persisted state. Products are addressed by id. The cart collection is addressed by
  the owning user, which is how every controller reaches it (\<open>Cart.findOne({user})\<close>, then
  \<open>findById\<close> / \<open>findByIdAndDelete\<close> on the cart just found). Orders are a list of documents.
\<close>

record db =
  products :: "objectId \<rightharpoonup> product"
  carts :: "objectId \<rightharpoonup> cart"
  orders :: "order list"

text \<open>\<open>req.user\<close>, supplied by the authentication middleware.\<close>

record user =
  u_id :: objectId
  u_email :: string
  u_role :: string

subsection \<open>Errors\<close>

text \<open>
  The message of an \<open>ErrorResponse\<close>, one constructor per template string of the
  controllers, carrying the interpolated values.
\<close>

datatype message =
    ProductNotFoundWithId objectId
  | ProductOutOfStock string
  | ProductNotFoundWithIdOf objectId
  | InsufficientStockAvailable number
  | CannotAddMoreThanAvailable number
  | CartNotFound
  | ItemNotFoundInCart
  | ProductNotFound
  | NoOrderItems
  | OrderNotFoundWithIdOf objectId
  | PaymentNotSuccessful
  | NoItemsInCart

text \<open>
  What a controller hands to \<open>next\<close>: an \<open>ErrorResponse\<close> with its HTTP status, or an
  exception thrown by a collaborator and caught by the \<open>try\<close> block (a schema validation
  failure on save, a gateway failure, a property read on \<open>null\<close>, a string that does not
  cast to an id).
\<close>

datatype error =
    ErrorResponse message nat
  | ValidationError string
  | GatewayError
  | TypeError
  | CastError

subsection \<open>Object ids in requests\<close>

text \<open>
  An ObjectId is held as the string its \<open>toString()\<close> gives: 24 hexadecimal digits with
  lower-case letters. A request names an id by a string, which the database layer casts
  when it is used as an id (\<open>findById\<close>, a push onto \<open>cart.items\<close>): a string of 24
  hexadecimal digits, in either letter case, is the id with the lower-case spelling, and
  the cast of any other string throws. A comparison \<open>id.toString() === str\<close> is the
  equality of the stored spelling with the request's string, without a cast.
  \<open>addToCart\<close> uses the id of its request both ways, so its model keeps the request's
  string and the cast apart. The other controllers use the ids of a request only to look
  documents up; there the model takes the id that the request's string casts to.
\<close>

definition hexDigit :: "char \<Rightarrow> bool" where
  "hexDigit c \<longleftrightarrow> c \<in> set ''0123456789abcdefABCDEF''"

definition lowerHex :: "char \<Rightarrow> char" where
  "lowerHex c =
    (if c = CHR ''A'' then CHR ''a''
     else if c = CHR ''B'' then CHR ''b''
     else if c = CHR ''C'' then CHR ''c''
     else if c = CHR ''D'' then CHR ''d''
     else if c = CHR ''E'' then CHR ''e''
     else if c = CHR ''F'' then CHR ''f''
     else c)"

definition castObjectId :: "string \<Rightarrow> objectId option" where
  "castObjectId str =
    (if length str = 24 \<and> list_all hexDigit str then Some (map lowerHex str) else None)"

section \<open>Payment intent creation\<close>

text \<open>\<open>product.images[0]?.url || ""\<close>\<close>

definition firstImage :: "product \<Rightarrow> string" where
  "firstImage p = (case p_images p of [] \<Rightarrow> '''' | u # _ \<Rightarrow> u)"

text \<open>\<open>Math.round\<close>: the nearest integer, halves rounded up.\<close>

definition Math_round :: "number \<Rightarrow> int" where
  "Math_round x = \<lfloor>x + 1 / 2\<rfloor>"

text \<open>
  The loop of \<open>createPaymentIntent\<close> over \<open>items\<close>, with its two accumulators
  \<open>totalAmount\<close> and \<open>orderItems\<close>. It returns at the first missing or short product.
\<close>

fun verifyItems ::
  "(objectId \<rightharpoonup> product) \<Rightarrow> orderItem list \<Rightarrow> number \<Rightarrow> orderItem list
    \<Rightarrow> error + (number \<times> orderItem list)" where
  "verifyItems ps [] totalAmount orderItems = Inr (totalAmount, orderItems)"
| "verifyItems ps (item # rest) totalAmount orderItems =
    (case ps (oi_product item) of
       None \<Rightarrow> Inl (ErrorResponse (ProductNotFoundWithId (oi_product item)) 404)
     | Some p \<Rightarrow>
        if p_stock p < oi_quantity item
        then Inl (ErrorResponse (ProductOutOfStock (p_name p)) 400)
        else verifyItems ps rest (totalAmount + p_price p * oi_quantity item)
               (orderItems @
                 [\<lparr>oi_product = oi_product item, oi_name = p_name p,
                   oi_quantity = oi_quantity item, oi_price = p_price p,
                   oi_image = firstImage p\<rparr>]))"

definition taxRate :: number where
  "taxRate = 7 / 100"

text \<open>\<open>shipping?.price || 0\<close>: a missing \<open>shipping\<close>, a missing price and a zero price give 0.\<close>

definition shippingAmountOf :: "number option option \<Rightarrow> number" where
  "shippingAmountOf shipping =
    (case shipping of
       None \<Rightarrow> 0
     | Some None \<Rightarrow> 0
     | Some (Some price) \<Rightarrow> if price = 0 then 0 else price)"

text \<open>
  The amounts \<open>createPaymentIntent\<close> computes after the loop: \<open>totalAmount\<close>, \<open>taxAmount\<close>,
  \<open>shippingAmount\<close> and \<open>finalAmount\<close> (in cents).
\<close>

record quote =
  q_totalAmount :: number
  q_taxAmount :: number
  q_shippingAmount :: number
  q_finalAmount :: int

definition computeQuote :: "number \<Rightarrow> number option option \<Rightarrow> quote" where
  "computeQuote totalAmount shipping =
    (let taxAmount = totalAmount * taxRate;
         shippingAmount = shippingAmountOf shipping;
         finalAmount = Math_round ((totalAmount + taxAmount + shippingAmount) * 100)
     in \<lparr>q_totalAmount = totalAmount, q_taxAmount = taxAmount,
         q_shippingAmount = shippingAmount, q_finalAmount = finalAmount\<rparr>)"

text \<open>The argument of \<open>stripe.paymentIntents.create\<close>.\<close>

record intentParams =
  ip_amount :: int
  ip_currency :: string
  ip_payment_method_types :: "string list"
  ip_userId :: objectId
  ip_orderId :: nat

text \<open>
  The body of \<open>POST /api/payment/create-payment-intent\<close>: \<open>items\<close>, \<open>shipping\<close> (absent, or
  an object whose \<open>price\<close> may be absent) and \<open>paymentMethodType\<close>.
\<close>

record intentBody =
  ib_items :: "orderItem list"
  ib_shipping :: "number option option"
  ib_paymentMethodType :: "string option"

text \<open>
  \<open>createPaymentIntent\<close> up to the gateway call: the error handed to \<open>next\<close>, or the computed
  amounts together with the parameters sent to the gateway. The response echoes
  \<open>finalAmount\<close> as \<open>amount\<close>; the client secret and the intent id are the gateway's.
  \<open>now\<close> is the reading of \<open>Date.now()\<close>.
\<close>

definition createPaymentIntent ::
  "db \<Rightarrow> user \<Rightarrow> nat \<Rightarrow> intentBody \<Rightarrow> error + (quote \<times> intentParams)" where
  "createPaymentIntent s u now body =
    (case verifyItems (products s) (ib_items body) 0 [] of
       Inl e \<Rightarrow> Inl e
     | Inr (totalAmount, orderItems) \<Rightarrow>
        (let q = computeQuote totalAmount (ib_shipping body)
         in Inr (q,
              \<lparr>ip_amount = q_finalAmount q, ip_currency = ''usd'',
                ip_payment_method_types =
                  [case ib_paymentMethodType body of
                     None \<Rightarrow> ''card''
                   | Some t \<Rightarrow> if t = [] then ''card'' else t],
                ip_userId = u_id u, ip_orderId = now\<rparr>)))"

section \<open>Cart management\<close>

text \<open>\<open>Array.prototype.findIndex\<close>; \<open>None\<close> stands for the result \<open>-1\<close>.\<close>

fun findIndex :: "('a \<Rightarrow> bool) \<Rightarrow> 'a list \<Rightarrow> nat option" where
  "findIndex P [] = None"
| "findIndex P (x # xs) = (if P x then Some 0 else map_option Suc (findIndex P xs))"

text \<open>\<open>xs.splice(i, 1)\<close>: the array without its element at index \<open>i\<close>.\<close>

definition splice1 :: "nat \<Rightarrow> 'a list \<Rightarrow> 'a list" where
  "splice1 i xs = take i xs @ drop (Suc i) xs"

text \<open>
  The pre-save hook of the cart schema:
  \<open>this.items.reduce((total, item) => total + item.price * item.quantity, 0)\<close>.
\<close>

definition cartTotal :: "cartItem list \<Rightarrow> number" where
  "cartTotal items = foldl (\<lambda>total item. total + ci_price item * ci_quantity item) 0 items"

text \<open>
  \<open>cart.save()\<close>: the schema validation (\<open>quantity\<close> has \<open>min: 1\<close>) rejects the document,
  or the hook recomputes \<open>totalPrice\<close> and the document is written under its user. The
  saved document is returned with the new state.
\<close>

definition cart_save :: "objectId \<Rightarrow> cart \<Rightarrow> db \<Rightarrow> error + (cart \<times> db)" where
  "cart_save uid c s =
    (if list_ex (\<lambda>item. ci_quantity item < 1) (c_items c)
     then Inl (ValidationError ''Quantity cannot be less than 1'')
     else (let c' = c\<lparr>c_totalPrice := cartTotal (c_items c)\<rparr>
           in Inr (c', s\<lparr>carts := (carts s)(uid \<mapsto> c')\<rparr>)))"

text \<open>\<open>Cart.create({ user, items: [] })\<close>; the total's schema default is 0.\<close>

definition Cart_create :: "objectId \<Rightarrow> db \<Rightarrow> error + (cart \<times> db)" where
  "Cart_create uid s = cart_save uid \<lparr>c_items = [], c_totalPrice = 0\<rparr> s"

text \<open>
  The common tail of the cart controllers: save the cart, read it back and answer with
  it. A failed save is thrown, caught and handed to \<open>next\<close>. (The response populates the
  product of every line; the model answers with the cart document itself.)
\<close>

definition saveAndRespond :: "objectId \<Rightarrow> cart \<Rightarrow> db \<Rightarrow> (error + cart) \<times> db" where
  "saveAndRespond uid c s =
    (case cart_save uid c s of
       Inl e \<Rightarrow> (Inl e, s)
     | Inr (c', s') \<Rightarrow> (Inr c', s'))"

text \<open>
  \<open>addToCart\<close>. \<open>productId\<close> is the string of the request body: \<open>Product.findById\<close> casts it,
  the search for the cart line compares \<open>item.product.toString()\<close> with it as it is, and
  a pushed line stores its cast. \<open>newId\<close> is the id the database gives to a line pushed
  onto the cart.
\<close>

definition addToCart ::
  "user \<Rightarrow> string \<Rightarrow> number \<Rightarrow> objectId \<Rightarrow> db \<Rightarrow> (error + cart) \<times> db" where
  "addToCart u productId quantity newId s =
    (case castObjectId productId of
       None \<Rightarrow> (Inl CastError, s)
     | Some pid \<Rightarrow>
        (case products s pid of
           None \<Rightarrow> (Inl (ErrorResponse (ProductNotFoundWithIdOf productId) 404), s)
         | Some product \<Rightarrow>
            if p_stock product < quantity
            then (Inl (ErrorResponse (InsufficientStockAvailable (p_stock product)) 400), s)
            else
              (case (case carts s (u_id u) of
                       Some c \<Rightarrow> Inr (c, s)
                     | None \<Rightarrow> Cart_create (u_id u) s) of
                 Inl e \<Rightarrow> (Inl e, s)
               | Inr (cart, s1) \<Rightarrow>
                  (case findIndex (\<lambda>item. ci_product item = productId) (c_items cart) of
                     Some itemIndex \<Rightarrow>
                      (let item = c_items cart ! itemIndex;
                           item' = item\<lparr>ci_quantity := ci_quantity item + quantity\<rparr>
                       in if ci_quantity item' > p_stock product
                          then (Inl (ErrorResponse (CannotAddMoreThanAvailable (p_stock product))
                                       400), s1)
                          else saveAndRespond (u_id u)
                                 (cart\<lparr>c_items := (c_items cart)[itemIndex := item']\<rparr>) s1)
                   | None \<Rightarrow>
                      saveAndRespond (u_id u)
                        (cart\<lparr>c_items := c_items cart @
                            [\<lparr>ci_id = newId, ci_product = pid, ci_quantity = quantity,
                              ci_price = p_price product\<rparr>]\<rparr>) s1))))"

definition updateCartItem ::
  "user \<Rightarrow> objectId \<Rightarrow> number \<Rightarrow> db \<Rightarrow> (error + cart) \<times> db" where
  "updateCartItem u itemId quantity s =
    (case carts s (u_id u) of
       None \<Rightarrow> (Inl (ErrorResponse CartNotFound 404), s)
     | Some cart \<Rightarrow>
        (case findIndex (\<lambda>item. ci_id item = itemId) (c_items cart) of
           None \<Rightarrow> (Inl (ErrorResponse ItemNotFoundInCart 404), s)
         | Some itemIndex \<Rightarrow>
            (case products s (ci_product (c_items cart ! itemIndex)) of
               None \<Rightarrow> (Inl (ErrorResponse ProductNotFound 404), s)
             | Some product \<Rightarrow>
                if quantity > p_stock product
                then (Inl (ErrorResponse (CannotAddMoreThanAvailable (p_stock product)) 400), s)
                else if quantity \<le> 0
                then saveAndRespond (u_id u) (cart\<lparr>c_items := splice1 itemIndex (c_items cart)\<rparr>) s
                else saveAndRespond (u_id u)
                       (cart\<lparr>c_items := (c_items cart)
                          [itemIndex := (c_items cart ! itemIndex)\<lparr>ci_quantity := quantity\<rparr>]\<rparr>)
                       s)))"

definition removeFromCart :: "user \<Rightarrow> objectId \<Rightarrow> db \<Rightarrow> (error + cart) \<times> db" where
  "removeFromCart u itemId s =
    (case carts s (u_id u) of
       None \<Rightarrow> (Inl (ErrorResponse CartNotFound 404), s)
     | Some cart \<Rightarrow>
        (case findIndex (\<lambda>item. ci_id item = itemId) (c_items cart) of
           None \<Rightarrow> (Inl (ErrorResponse ItemNotFoundInCart 404), s)
         | Some itemIndex \<Rightarrow>
            saveAndRespond (u_id u) (cart\<lparr>c_items := splice1 itemIndex (c_items cart)\<rparr>) s))"

definition clearCart :: "user \<Rightarrow> db \<Rightarrow> (error + cart) \<times> db" where
  "clearCart u s =
    (case carts s (u_id u) of
       None \<Rightarrow> (Inl (ErrorResponse CartNotFound 404), s)
     | Some cart \<Rightarrow> saveAndRespond (u_id u) (cart\<lparr>c_items := []\<rparr>) s)"

text \<open>\<open>getCart\<close>: the user's cart, created empty on first access.\<close>

definition getCart :: "user \<Rightarrow> db \<Rightarrow> (error + cart) \<times> db" where
  "getCart u s =
    (case carts s (u_id u) of
       Some c \<Rightarrow> (Inr c, s)
     | None \<Rightarrow>
        (case Cart_create (u_id u) s of
           Inl e \<Rightarrow> (Inl e, s)
         | Inr (c, s') \<Rightarrow> (Inr c, s')))"

section \<open>Stock accounting\<close>

text \<open>
  \<open>product.save()\<close>: the product schema declares \<open>stock\<close> with
  \<open>min: [0, "Stock cannot be negative"]\<close>, so saving a product whose stock is below zero
  is rejected by validation and nothing is written. (The other validators of the schema
  concern fields that these controllers never change and the model does not hold.)
\<close>

definition product_save :: "objectId \<Rightarrow> product \<Rightarrow> db \<Rightarrow> error + db" where
  "product_save pid p s =
    (if p_stock p < 0 then Inl (ValidationError ''Stock cannot be negative'')
     else Inr (s\<lparr>products := (products s)(pid \<mapsto> p)\<rparr>))"

text \<open>
  The stock loop shared by \<open>createOrder\<close> and \<open>processPayment\<close>, over the (product id,
  quantity) pairs of the lines:
  \<open>product = await Product.findById(id); product.stock -= quantity; await product.save()\<close>.
  An exception leaves the loop with the writes made so far in place; the result is the
  exception, if any, and the state reached.
\<close>

fun updateStock :: "(objectId \<times> number) list \<Rightarrow> db \<Rightarrow> error option \<times> db" where
  "updateStock [] s = (None, s)"
| "updateStock ((pid, quantity) # rest) s =
    (case products s pid of
       None \<Rightarrow> (Some TypeError, s)
     | Some product \<Rightarrow>
        (case product_save pid (product\<lparr>p_stock := p_stock product - quantity\<rparr>) s of
           Inl e \<Rightarrow> (Some e, s)
         | Inr s' \<Rightarrow> updateStock rest s'))"

section \<open>Order creation\<close>

text \<open>
  Modelled from the spec: \<open>Order.create\<close> belongs to models/Order.js, which is not among
  the sources. Following the spec (the order is persisted with its item snapshot and the
  prices it is given), the document is stored with the fields it is created with.
\<close>

definition Order_create :: "order \<Rightarrow> db \<Rightarrow> db" where
  "Order_create ord s = s\<lparr>orders := orders s @ [ord]\<rparr>"

text \<open>
  Modelled from the spec: \<open>order.save()\<close> of models/Order.js. The stored document with the
  same id is replaced.
\<close>

definition Order_save :: "order \<Rightarrow> db \<Rightarrow> db" where
  "Order_save ord s =
    (case findIndex (\<lambda>x. o_id x = o_id ord) (orders s) of
       None \<Rightarrow> s
     | Some i \<Rightarrow> s\<lparr>orders := (orders s)[i := ord]\<rparr>)"

text \<open>The body of \<open>POST /api/orders\<close>.\<close>

record orderBody =
  ob_orderItems :: "orderItem list option"
  ob_shippingAddress :: string
  ob_paymentMethod :: string
  ob_itemsPrice :: number
  ob_taxPrice :: number
  ob_shippingPrice :: number
  ob_totalPrice :: number

text \<open>The first loop of \<open>createOrder\<close>: every product exists and has sufficient stock.\<close>

fun verifyStock :: "(objectId \<rightharpoonup> product) \<Rightarrow> orderItem list \<Rightarrow> error option" where
  "verifyStock ps [] = None"
| "verifyStock ps (item # rest) =
    (case ps (oi_product item) of
       None \<Rightarrow> Some (ErrorResponse (ProductNotFoundWithId (oi_product item)) 404)
     | Some p \<Rightarrow>
        if p_stock p < oi_quantity item
        then Some (ErrorResponse (ProductOutOfStock (p_name p)) 400)
        else verifyStock ps rest)"

text \<open>
  \<open>createOrder\<close>. \<open>newId\<close> is the id the database gives to the new order. The order is
  created before the stock loop runs, so an exception in the loop leaves it stored.
\<close>

definition createOrder :: "user \<Rightarrow> orderBody \<Rightarrow> objectId \<Rightarrow> db \<Rightarrow> (error + order) \<times> db" where
  "createOrder u body newId s =
    (case ob_orderItems body of
       None \<Rightarrow> (Inl (ErrorResponse NoOrderItems 400), s)
     | Some orderItems \<Rightarrow>
        if orderItems = [] then (Inl (ErrorResponse NoOrderItems 400), s)
        else
          (case verifyStock (products s) orderItems of
             Some e \<Rightarrow> (Inl e, s)
           | None \<Rightarrow>
              (let ord = \<lparr>o_id = newId, o_user = u_id u, o_orderItems = orderItems,
                          o_shippingAddress = ob_shippingAddress body,
                          o_paymentMethod = ob_paymentMethod body,
                          o_paymentResult = None,
                          o_itemsPrice = ob_itemsPrice body, o_taxPrice = ob_taxPrice body,
                          o_shippingPrice = ob_shippingPrice body,
                          o_totalPrice = ob_totalPrice body,
                          o_isPaid = False, o_paidAt = None,
                          o_isDelivered = False, o_deliveredAt = None,
                          o_status = ''pending''\<rparr>;
                   s1 = Order_create ord s
               in (case updateStock (map (\<lambda>item. (oi_product item, oi_quantity item)) orderItems)
                           s1 of
                     (Some e, s2) \<Rightarrow> (Inl e, s2)
                   | (None, s2) \<Rightarrow> (Inr ord, s2)))))"

text \<open>\<open>updateOrderToPaid\<close>; \<open>now\<close> is the reading of \<open>Date.now()\<close>.\<close>

definition updateOrderToPaid ::
  "objectId \<Rightarrow> paymentResult \<Rightarrow> nat \<Rightarrow> db \<Rightarrow> (error + order) \<times> db" where
  "updateOrderToPaid oid body now s =
    (case find (\<lambda>x. o_id x = oid) (orders s) of
       None \<Rightarrow> (Inl (ErrorResponse (OrderNotFoundWithIdOf oid) 404), s)
     | Some ord \<Rightarrow>
        (let updatedOrder =
               ord\<lparr>o_isPaid := True, o_paidAt := Some now,
                   o_paymentResult :=
                     Some \<lparr>pr_id = pr_id body, pr_status = pr_status body,
                           pr_update_time = pr_update_time body,
                           pr_email_address = pr_email_address body\<rparr>\<rparr>
         in (Inr updatedOrder, Order_save updatedOrder s)))"

section \<open>Payment settlement\<close>

text \<open>
  What \<open>stripe.paymentIntents.retrieve\<close> answers: the intent with its status. The gateway
  is a map from intent ids to intents; an unknown id makes the call throw.
\<close>

record paymentIntent =
  pi_id :: string
  pi_status :: string

text \<open>
  The order lines \<open>processPayment\<close> builds from the populated cart. A line whose product
  no longer exists is populated with \<open>null\<close>, and reading \<open>item.product._id\<close> throws.
\<close>

fun cartOrderItems :: "(objectId \<rightharpoonup> product) \<Rightarrow> cartItem list \<Rightarrow> orderItem list option" where
  "cartOrderItems ps [] = Some []"
| "cartOrderItems ps (item # rest) =
    (case ps (ci_product item) of
       None \<Rightarrow> None
     | Some p \<Rightarrow>
        map_option
          (\<lambda>ys. \<lparr>oi_product = ci_product item, oi_name = p_name p,
                  oi_quantity = ci_quantity item, oi_price = ci_price item,
                  oi_image = firstImage p\<rparr> # ys)
          (cartOrderItems ps rest))"

text \<open>
  \<open>processPayment\<close>. \<open>newId\<close> is the id the database gives to the new order and \<open>now\<close> the
  reading of \<open>Date.now()\<close>, taken to be the same for \<open>update_time\<close> and \<open>paidAt\<close>. The order
  is created before the stock loop and the cart is deleted after it, so an exception in
  the loop leaves the order stored and the cart in place.
\<close>

definition processPayment ::
  "(string \<rightharpoonup> paymentIntent) \<Rightarrow> user \<Rightarrow> string \<Rightarrow> string \<Rightarrow> objectId \<Rightarrow> nat \<Rightarrow> db
    \<Rightarrow> (error + order) \<times> db" where
  "processPayment gateway u paymentIntentId shippingAddress newId now s =
    (case gateway paymentIntentId of
       None \<Rightarrow> (Inl GatewayError, s)
     | Some paymentIntent \<Rightarrow>
        if pi_status paymentIntent \<noteq> ''succeeded''
        then (Inl (ErrorResponse PaymentNotSuccessful 400), s)
        else
          (case carts s (u_id u) of
             None \<Rightarrow> (Inl (ErrorResponse NoItemsInCart 400), s)
           | Some cart \<Rightarrow>
              if c_items cart = [] then (Inl (ErrorResponse NoItemsInCart 400), s)
              else
                (case cartOrderItems (products s) (c_items cart) of
                   None \<Rightarrow> (Inl TypeError, s)
                 | Some orderItems \<Rightarrow>
                    (let itemsPrice = c_totalPrice cart;
                         taxPrice = itemsPrice * (7 / 100);
                         shippingPrice = 10;
                         totalPrice = itemsPrice + taxPrice + shippingPrice;
                         ord = \<lparr>o_id = newId, o_user = u_id u, o_orderItems = orderItems,
                                o_shippingAddress = shippingAddress,
                                o_paymentMethod = ''stripe'',
                                o_paymentResult =
                                  Some \<lparr>pr_id = paymentIntentId,
                                        pr_status = pi_status paymentIntent,
                                        pr_update_time = Millis now,
                                        pr_email_address = u_email u\<rparr>,
                                o_itemsPrice = itemsPrice, o_taxPrice = taxPrice,
                                o_shippingPrice = shippingPrice, o_totalPrice = totalPrice,
                                o_isPaid = True, o_paidAt = Some now,
                                o_isDelivered = False, o_deliveredAt = None,
                                o_status = ''pending''\<rparr>;
                         s1 = Order_create ord s
                     in (case updateStock
                                (map (\<lambda>item. (ci_product item, ci_quantity item)) (c_items cart))
                                s1 of
                           (Some e, s2) \<Rightarrow> (Inl e, s2)
                         | (None, s2) \<Rightarrow>
                            (Inr ord, s2\<lparr>carts := (carts s2)(u_id u := None)\<rparr>))))))"

subsection \<open>Webhook\<close>





section \<open>Notions and example data for the properties\<close>

text \<open>The ids of two catalogue products, and the id of the first in upper-case digits.\<close>

abbreviation idA :: objectId where
  "idA \<equiv> ''aaaaaaaaaaaaaaaaaaaaaaaa''"

abbreviation idB :: objectId where
  "idB \<equiv> ''bbbbbbbbbbbbbbbbbbbbbbbb''"

abbreviation idA_upper :: string where
  "idA_upper \<equiv> ''AAAAAAAAAAAAAAAAAAAAAAAA''"

text \<open>A customer, two catalogue products and a shop with no carts and no orders.\<close>

definition alice :: user where
  "alice = \<lparr>u_id = ''alice'', u_email = ''alice@example.com'', u_role = ''user''\<rparr>"

definition productA :: product where
  "productA = \<lparr>p_name = ''Product A'', p_price = 10, p_stock = 5, p_images = []\<rparr>"

definition productB :: product where
  "productB = \<lparr>p_name = ''Product B'', p_price = 25, p_stock = 2, p_images = []\<rparr>"

definition shop :: db where
  "shop = \<lparr>products = [idA \<mapsto> productA, idB \<mapsto> productB], carts = Map.empty, orders = []\<rparr>"

text \<open>A request line that names a product, a quantity and a client-side price.\<close>

definition line :: "objectId \<Rightarrow> number \<Rightarrow> number \<Rightarrow> orderItem" where
  "line pid quantity price =
    \<lparr>oi_product = pid, oi_name = '''', oi_quantity = quantity, oi_price = price, oi_image = ''''\<rparr>"

text \<open>Two lists of request lines that agree on the product and the quantity of every line.\<close>

definition sameLines :: "orderItem list \<Rightarrow> orderItem list \<Rightarrow> bool" where
  "sameLines xs ys \<longleftrightarrow>
     list_all2 (\<lambda>i j. oi_product i = oi_product j \<and> oi_quantity i = oi_quantity j) xs ys"

text \<open>
  The quantity of a product already in a user's cart: the sum of the quantities of the
  cart's lines of that product, and 0 when there is no cart.
\<close>

definition cartQuantity :: "db \<Rightarrow> objectId \<Rightarrow> objectId \<Rightarrow> number" where
  "cartQuantity s uid pid =
    (case carts s uid of
       None \<Rightarrow> 0
     | Some c \<Rightarrow> (\<Sum>item\<leftarrow>filter (\<lambda>item. ci_product item = pid) (c_items c). ci_quantity item))"

text \<open>
  The quantity of the line that \<open>addToCart\<close> finds for a request: the first line whose stored
  product id is spelled as the request's \<open>productId\<close>, and 0 when there is no cart or no
  such line.
\<close>

definition foundQuantity :: "db \<Rightarrow> objectId \<Rightarrow> string \<Rightarrow> number" where
  "foundQuantity s uid productId =
    (case carts s uid of
       None \<Rightarrow> 0
     | Some c \<Rightarrow>
        (case find (\<lambda>item. ci_product item = productId) (c_items c) of
           None \<Rightarrow> 0
         | Some item \<Rightarrow> ci_quantity item))"

text \<open>The cart invariant: the stored total is the sum of price times quantity of the lines.\<close>

definition cart_ok :: "cart \<Rightarrow> bool" where
  "cart_ok c \<longleftrightarrow> c_totalPrice c = (\<Sum>item\<leftarrow>c_items c. ci_price item * ci_quantity item)"

text \<open>The shop after Alice has put 3 units of product A into her cart.\<close>

definition shopWithCart :: db where
  "shopWithCart = snd (addToCart alice idA 3 ''line1'' shop)"

text \<open>The quantity an order request asks of a product, over all its lines.\<close>

definition requested :: "orderItem list \<Rightarrow> objectId \<Rightarrow> number" where
  "requested ls pid = (\<Sum>item\<leftarrow>filter (\<lambda>item. oi_product item = pid) ls. oi_quantity item)"

text \<open>
  A line of an order request is unavailable when its product is missing or when the
  request asks, over all its lines, for more of the product than its stock.
\<close>

definition unavailable :: "db \<Rightarrow> orderItem list \<Rightarrow> orderItem \<Rightarrow> bool" where
  "unavailable s ls item =
    (case products s (oi_product item) of
       None \<Rightarrow> True
     | Some p \<Rightarrow> p_stock p < requested ls (oi_product item))"

text \<open>
  The test of the first loop of \<open>createOrder\<close> on one line: the product is missing, or the
  quantity of this line alone exceeds the stored stock.
\<close>

definition shortLine :: "db \<Rightarrow> orderItem \<Rightarrow> bool" where
  "shortLine s item =
    (case products s (oi_product item) of
       None \<Rightarrow> True
     | Some p \<Rightarrow> p_stock p < oi_quantity item)"

text \<open>The price equation of an order.\<close>

definition price_ok :: "order \<Rightarrow> bool" where
  "price_ok ord \<longleftrightarrow> o_totalPrice ord = o_itemsPrice ord + o_taxPrice ord + o_shippingPrice ord"

text \<open>An order request with the given lines and declared prices.\<close>

definition orderRequest ::
  "orderItem list \<Rightarrow> number \<Rightarrow> number \<Rightarrow> number \<Rightarrow> number \<Rightarrow> orderBody" where
  "orderRequest ls itemsPrice taxPrice shippingPrice totalPrice =
    \<lparr>ob_orderItems = Some ls, ob_shippingAddress = ''1 Main Street'',
      ob_paymentMethod = ''card'', ob_itemsPrice = itemsPrice, ob_taxPrice = taxPrice,
      ob_shippingPrice = shippingPrice, ob_totalPrice = totalPrice\<rparr>"

text \<open>A gateway that knows one payment intent, which has succeeded.\<close>

definition gatewayPaid :: "string \<rightharpoonup> paymentIntent" where
  "gatewayPaid = [''pi_1'' \<mapsto> \<lparr>pi_id = ''pi_1'', pi_status = ''succeeded''\<rparr>]"

text \<open>The result of settling Alice's cart against that intent.\<close>

definition settled :: "(error + order) \<times> db" where
  "settled = processPayment gatewayPaid alice ''pi_1'' ''1 Main Street'' ''order1'' 1000 shopWithCart"

text \<open>
  The request lines name the same products and quantities as the lines of a cart, in the
  same order.
\<close>

definition sameItems :: "orderItem list \<Rightarrow> cartItem list \<Rightarrow> bool" where
  "sameItems xs cs \<longleftrightarrow>
     list_all2 (\<lambda>i c. oi_product i = ci_product c \<and> oi_quantity i = ci_quantity c) xs cs"

text \<open>Every line of the cart carries the current catalogue price of its product.\<close>

definition snapshotCurrent :: "db \<Rightarrow> cart \<Rightarrow> bool" where
  "snapshotCurrent s c =
     list_all (\<lambda>ci. case products s (ci_product ci) of
                      None \<Rightarrow> False
                    | Some p \<Rightarrow> p_price p = ci_price ci) (c_items c)"

text \<open>A payment intent request for the given lines and shipping price.\<close>

definition intentRequest :: "orderItem list \<Rightarrow> number \<Rightarrow> intentBody" where
  "intentRequest ls shippingPrice =
    \<lparr>ib_items = ls, ib_shipping = Some (Some shippingPrice), ib_paymentMethodType = None\<rparr>"

text \<open>The shop with Alice's cart, after the catalogue price of product A went from 10 to 12.\<close>

definition repricedShop :: db where
  "repricedShop =
     shopWithCart\<lparr>products := (products shopWithCart)(idA \<mapsto> productA\<lparr>p_price := 12\<rparr>)\<rparr>"

text \<open>An order request whose declared total is not the sum of its declared parts.\<close>

definition mispriced :: "(error + order) \<times> db" where
  "mispriced = createOrder alice (orderRequest [line idA 1 10] 10 1 1 0) ''order1'' shop"



text \<open>The shop with one unpaid order, and a gateway receipt for it.\<close>

definition orderedShop :: db where
  "orderedShop =
     snd (createOrder alice (orderRequest [line idA 1 10] 10 (7 / 10) 10 (207 / 10))
            ''order1'' shop)"

definition receipt :: paymentResult where
  "receipt = \<lparr>pr_id = ''txn_1'', pr_status = ''COMPLETED'',
              pr_update_time = Text ''2024-01-01T00:00:00Z'',
              pr_email_address = ''alice@example.com''\<rparr>"

section \<open>Concurrent requests\<close>

text \<open>
  Requests run concurrently: a controller runs without interruption from one \<open>await\<close> to
  the next, and each awaited database call (\<open>findById\<close>, \<open>create\<close>, \<open>save\<close>,
  \<open>findByIdAndDelete\<close>) or gateway call takes effect at once. A request of \<open>createOrder\<close> or
  \<open>processPayment\<close> in flight is a task: the awaited call it is about to make, with the
  local variables it holds. The stock loop is a \<open>findById\<close> (\<open>Fetching\<close>) followed by a
  separate \<open>save\<close> of the decremented copy (\<open>Saving\<close>).
\<close>

datatype task =
    Verifying user orderBody objectId "orderItem list" orderItem "orderItem list"
  | Retrieving user string string objectId nat
  | FindingCart user string paymentIntent string objectId nat
  | Creating order "(objectId \<times> number) list" "objectId option"
  | Fetching objectId number "(objectId \<times> number) list" order "objectId option"
  | Saving objectId product "(objectId \<times> number) list" order "objectId option"
  | DeletingCart objectId order
  | Done "error + order"

text \<open>
  What follows a completed line of the stock loop: the next line, or after the last line
  the response of \<open>createOrder\<close>, or the cart deletion of \<open>processPayment\<close> (for the user
  whose cart it is).
\<close>

fun afterStock :: "(objectId \<times> number) list \<Rightarrow> order \<Rightarrow> objectId option \<Rightarrow> task" where
  "afterStock [] ord None = Done (Inr ord)"
| "afterStock [] ord (Some uid) = DeletingCart uid ord"
| "afterStock ((pid, quantity) # rest) ord cu = Fetching pid quantity rest ord cu"

text \<open>A request of \<open>createOrder\<close> up to its first \<open>await\<close>.\<close>

definition createOrderTask :: "user \<Rightarrow> orderBody \<Rightarrow> objectId \<Rightarrow> task" where
  "createOrderTask u body newId =
    (case ob_orderItems body of
       None \<Rightarrow> Done (Inl (ErrorResponse NoOrderItems 400))
     | Some [] \<Rightarrow> Done (Inl (ErrorResponse NoOrderItems 400))
     | Some (item # rest) \<Rightarrow> Verifying u body newId (item # rest) item rest)"

text \<open>A request of \<open>processPayment\<close> up to its first \<open>await\<close>.\<close>

definition processPaymentTask :: "user \<Rightarrow> string \<Rightarrow> string \<Rightarrow> objectId \<Rightarrow> nat \<Rightarrow> task" where
  "processPaymentTask u paymentIntentId shippingAddress newId now =
     Retrieving u paymentIntentId shippingAddress newId now"

text \<open>One awaited call of a task, with the code that follows it up to the next \<open>await\<close>.\<close>

fun task_step :: "(string \<rightharpoonup> paymentIntent) \<Rightarrow> db \<Rightarrow> task \<Rightarrow> db \<times> task" where
  "task_step gateway s (Verifying u body newId orderItems item rest) =
    (case products s (oi_product item) of
       None \<Rightarrow> (s, Done (Inl (ErrorResponse (ProductNotFoundWithId (oi_product item)) 404)))
     | Some p \<Rightarrow>
        if p_stock p < oi_quantity item
        then (s, Done (Inl (ErrorResponse (ProductOutOfStock (p_name p)) 400)))
        else
          (case rest of
             item' # rest' \<Rightarrow> (s, Verifying u body newId orderItems item' rest')
           | [] \<Rightarrow>
              (s, Creating
                    \<lparr>o_id = newId, o_user = u_id u, o_orderItems = orderItems,
                      o_shippingAddress = ob_shippingAddress body,
                      o_paymentMethod = ob_paymentMethod body,
                      o_paymentResult = None,
                      o_itemsPrice = ob_itemsPrice body, o_taxPrice = ob_taxPrice body,
                      o_shippingPrice = ob_shippingPrice body,
                      o_totalPrice = ob_totalPrice body,
                      o_isPaid = False, o_paidAt = None,
                      o_isDelivered = False, o_deliveredAt = None,
                      o_status = ''pending''\<rparr>
                    (map (\<lambda>item. (oi_product item, oi_quantity item)) orderItems) None)))"
| "task_step gateway s (Retrieving u paymentIntentId shippingAddress newId now) =
    (case gateway paymentIntentId of
       None \<Rightarrow> (s, Done (Inl GatewayError))
     | Some paymentIntent \<Rightarrow>
        if pi_status paymentIntent \<noteq> ''succeeded''
        then (s, Done (Inl (ErrorResponse PaymentNotSuccessful 400)))
        else (s, FindingCart u paymentIntentId paymentIntent shippingAddress newId now))"
| "task_step gateway s (FindingCart u paymentIntentId paymentIntent shippingAddress newId now) =
    (case carts s (u_id u) of
       None \<Rightarrow> (s, Done (Inl (ErrorResponse NoItemsInCart 400)))
     | Some cart \<Rightarrow>
        if c_items cart = [] then (s, Done (Inl (ErrorResponse NoItemsInCart 400)))
        else
          (case cartOrderItems (products s) (c_items cart) of
             None \<Rightarrow> (s, Done (Inl TypeError))
           | Some orderItems \<Rightarrow>
              (let itemsPrice = c_totalPrice cart;
                   taxPrice = itemsPrice * (7 / 100);
                   shippingPrice = 10;
                   totalPrice = itemsPrice + taxPrice + shippingPrice
               in (s, Creating
                        \<lparr>o_id = newId, o_user = u_id u, o_orderItems = orderItems,
                          o_shippingAddress = shippingAddress,
                          o_paymentMethod = ''stripe'',
                          o_paymentResult =
                            Some \<lparr>pr_id = paymentIntentId,
                                  pr_status = pi_status paymentIntent,
                                  pr_update_time = Millis now,
                                  pr_email_address = u_email u\<rparr>,
                          o_itemsPrice = itemsPrice, o_taxPrice = taxPrice,
                          o_shippingPrice = shippingPrice, o_totalPrice = totalPrice,
                          o_isPaid = True, o_paidAt = Some now,
                          o_isDelivered = False, o_deliveredAt = None,
                          o_status = ''pending''\<rparr>
                        (map (\<lambda>item. (ci_product item, ci_quantity item)) (c_items cart))
                        (Some (u_id u))))))"
| "task_step gateway s (Creating ord ls cu) = (Order_create ord s, afterStock ls ord cu)"
| "task_step gateway s (Fetching pid quantity rest ord cu) =
    (case products s pid of
       None \<Rightarrow> (s, Done (Inl TypeError))
     | Some product \<Rightarrow>
        (s, Saving pid (product\<lparr>p_stock := p_stock product - quantity\<rparr>) rest ord cu))"
| "task_step gateway s (Saving pid product rest ord cu) =
    (case product_save pid product s of
       Inl e \<Rightarrow> (s, Done (Inl e))
     | Inr s' \<Rightarrow> (s', afterStock rest ord cu))"
| "task_step gateway s (DeletingCart uid ord) =
    (s\<lparr>carts := (carts s)(uid := None)\<rparr>, Done (Inr ord))"
| "task_step gateway s (Done r) = (s, Done r)"

text \<open>
  The database and the tasks in flight. A schedule names, step by step, the task whose
  awaited call happens next; any interleaving of the requests is a schedule.
\<close>

definition sched_step ::
  "(string \<rightharpoonup> paymentIntent) \<Rightarrow> nat \<Rightarrow> db \<times> task list \<Rightarrow> db \<times> task list" where
  "sched_step gateway i c =
    (if i < length (snd c)
     then (fst (task_step gateway (fst c) (snd c ! i)),
           (snd c)[i := snd (task_step gateway (fst c) (snd c ! i))])
     else c)"

fun run ::
  "(string \<rightharpoonup> paymentIntent) \<Rightarrow> nat list \<Rightarrow> db \<times> task list \<Rightarrow> db \<times> task list" where
  "run gateway [] c = c"
| "run gateway (i # sched) c = run gateway sched (sched_step gateway i c)"

text \<open>No product has negative stock.\<close>

definition stock_nonneg :: "db \<Rightarrow> bool" where
  "stock_nonneg s \<longleftrightarrow> (\<forall>pid p. products s pid = Some p \<longrightarrow> 0 \<le> p_stock p)"

text \<open>A task that has answered with an order.\<close>

fun succeeded :: "task \<Rightarrow> bool" where
  "succeeded (Done (Inr ord)) = True"
| "succeeded t = False"

text \<open>
  Two customers each ask \<open>createOrder\<close> for one unit of product A while a single unit is
  left in stock.
\<close>

definition bob :: user where
  "bob = \<lparr>u_id = ''bob'', u_email = ''bob@example.com'', u_role = ''user''\<rparr>"

definition lastUnit :: db where
  "lastUnit = \<lparr>products = [idA \<mapsto> productA\<lparr>p_stock := 1\<rparr>], carts = Map.empty, orders = []\<rparr>"

definition race :: "db \<times> task list" where
  "race = run Map.empty [0, 1, 0, 1, 0, 1, 0, 1]
            (lastUnit,
             [createOrderTask alice (orderRequest [line idA 1 10] 10 0 0 10) ''order1'',
              createOrderTask bob (orderRequest [line idA 1 10] 10 0 0 10) ''order2''])"

text \<open>A task running alone for a number of steps.\<close>

fun exec :: "(string \<rightharpoonup> paymentIntent) \<Rightarrow> nat \<Rightarrow> db \<Rightarrow> task \<Rightarrow> db \<times> task" where
  "exec gateway 0 s t = (s, t)"
| "exec gateway (Suc n) s t = exec gateway n (fst (task_step gateway s t)) (snd (task_step gateway s t))"

text \<open>
  With 3 units of product A in her cart and 5 in stock, Alice adds 3 more, naming the
  product by its id in upper-case digits; then 2 more, naming it in lower case.
\<close>

definition respelled :: "(error + cart) \<times> db" where
  "respelled = addToCart alice idA_upper 3 ''line2'' shopWithCart"

definition toppedUp :: "(error + cart) \<times> db" where
  "toppedUp = addToCart alice idA 2 ''line3'' (snd respelled)"

text \<open>
  With a single unit of product A in stock, an order request that names product A on two
  lines, one unit each.
\<close>

definition twoLines :: "(error + order) \<times> db" where
  "twoLines =
     createOrder alice (orderRequest [line idA 1 10, line idA 1 10] 20 0 0 20) ''order1'' lastUnit"

text \<open>
  Alice's cart holds 3 units of product A, of which 2 are left in stock when the cart is
  settled.
\<close>

definition stockDropped :: db where
  "stockDropped =
     shopWithCart\<lparr>products := (products shopWithCart)(idA \<mapsto> productA\<lparr>p_stock := 2\<rparr>)\<rparr>"

definition failedSettle :: "(error + order) \<times> db" where
  "failedSettle =
     processPayment gatewayPaid alice ''pi_1'' ''1 Main Street'' ''order1'' 1000 stockDropped"

section \<open>Arithmetic helpers\<close>

lemma floor_rat_numeral [simp]:
  "\<lfloor>(numeral a :: rat) / numeral b\<rfloor> = numeral a div numeral b"
  using floor_divide_of_int_eq [of "numeral a" "numeral b", where ?'a = rat] by simp

lemma castObjectId_examples [simp]:
  "castObjectId idA = Some idA" "castObjectId idB = Some idB" "castObjectId idA_upper = Some idA"
  by (simp_all add: castObjectId_def hexDigit_def lowerHex_def)

section \<open>Payment intent amounts\<close>

text \<open>
  C4. A request for 2 units of a product with catalogue price 25.00 and stock at least 2,
  with a shipping charge of 5.00: \<open>createPaymentIntent\<close> computes the items price 50.00,
  the tax 3.50, the total 58.50, and asks the gateway for exactly 5850 minor units.
\<close>

theorem createPaymentIntent_scenario:
  assumes "products s pid = Some p" and "p_price p = 25" and "2 \<le> p_stock p"
    and "ib_items body = [item]" and "oi_product item = pid" and "oi_quantity item = 2"
    and "ib_shipping body = Some (Some 5)"
  shows "\<exists>q params. createPaymentIntent s u now body = Inr (q, params)
           \<and> q_totalAmount q = 50 \<and> q_taxAmount q = 7 / 2 \<and> q_shippingAmount q = 5
           \<and> q_totalAmount q + q_taxAmount q + q_shippingAmount q = 117 / 2
           \<and> q_finalAmount q = 5850 \<and> ip_amount params = 5850"
  using assms
  by (simp add: createPaymentIntent_def computeQuote_def taxRate_def shippingAmountOf_def
      Math_round_def Let_def)

theorem createPaymentIntent_scenario_witness:
  "\<exists>q params. createPaymentIntent shop alice 0
      \<lparr>ib_items = [line idB 2 0], ib_shipping = Some (Some 5), ib_paymentMethodType = None\<rparr>
        = Inr (q, params)
     \<and> q_totalAmount q = 50 \<and> q_taxAmount q = 7 / 2 \<and> q_shippingAmount q = 5
     \<and> q_totalAmount q + q_taxAmount q + q_shippingAmount q = 117 / 2
     \<and> q_finalAmount q = 5850 \<and> ip_amount params = 5850"
  by (rule createPaymentIntent_scenario
        [where pid = "idB" and p = productB and item = "line idB 2 0"])
     (simp_all add: shop_def productB_def line_def)

lemma verifyItems_sameLines:
  "list_all2 (\<lambda>i j. oi_product i = oi_product j \<and> oi_quantity i = oi_quantity j) xs ys
   \<Longrightarrow> verifyItems ps xs t acc = verifyItems ps ys t acc"
proof (induction xs ys arbitrary: t acc rule: list_all2_induct)
  case Nil
  then show ?case by simp
next
  case (Cons x xs y ys)
  then show ?case by (simp split: option.split)
qed

text \<open>
  C10. The outcome of \<open>createPaymentIntent\<close> (the error, or the computed amounts and the
  amount sent to the gateway) is the same for two requests whose lines name the same
  products and quantities and whose shipping charge is the same, whatever price, name or
  image the client put on a line, and whoever asks, when, and for which payment method.
\<close>

theorem createPaymentIntent_ignores_client_price:
  assumes "sameLines (ib_items b1) (ib_items b2)"
    and "ib_shipping b1 = ib_shipping b2"
  shows "map_sum id (\<lambda>(q, params). (q, ip_amount params)) (createPaymentIntent s u1 n1 b1)
       = map_sum id (\<lambda>(q, params). (q, ip_amount params)) (createPaymentIntent s u2 n2 b2)"
  using assms verifyItems_sameLines [of "ib_items b1" "ib_items b2" "products s" 0 "[]"]
  by (simp add: createPaymentIntent_def sameLines_def Let_def split: sum.split prod.split)

theorem createPaymentIntent_ignores_client_price_witness:
  "map_sum id (\<lambda>(q, params). (q, ip_amount params))
     (createPaymentIntent shop alice 0
        \<lparr>ib_items = [line idB 2 25], ib_shipping = Some (Some 5),
          ib_paymentMethodType = None\<rparr>)
   = map_sum id (\<lambda>(q, params). (q, ip_amount params))
     (createPaymentIntent shop alice 0
        \<lparr>ib_items = [line idB 2 (1 / 100)], ib_shipping = Some (Some 5),
          ib_paymentMethodType = None\<rparr>)"
  by (rule createPaymentIntent_ignores_client_price) (simp_all add: sameLines_def line_def)

section \<open>Cart properties\<close>

lemma findIndex_Some_find: "findIndex P xs = Some i \<Longrightarrow> find P xs = Some (xs ! i) \<and> i < length xs"
  by (induction xs arbitrary: i) (auto split: if_splits)

lemma findIndex_None_find: "findIndex P xs = None \<Longrightarrow> find P xs = None"
  by (induction xs) (auto split: if_splits)

lemma cartTotal_sum: "cartTotal xs = (\<Sum>item\<leftarrow>xs. ci_price item * ci_quantity item)"
proof -
  have "foldl (\<lambda>total item. total + ci_price item * ci_quantity item) a xs
        = a + (\<Sum>item\<leftarrow>xs. ci_price item * ci_quantity item)" for a
    by (induction xs arbitrary: a) (simp_all add: add.assoc)
  from this [of 0] show ?thesis by (simp add: cartTotal_def)
qed

lemma cart_save_ok:
  "cart_save uid c s = Inr (c', s') \<Longrightarrow>
     carts s' uid = Some c' \<and> cart_ok c' \<and> c_items c' = c_items c"
  by (auto simp: cart_save_def cart_ok_def cartTotal_sum Let_def split: if_splits)

lemma saveAndRespond_ok:
  "saveAndRespond uid c s = (Inr c', s') \<Longrightarrow>
     carts s' uid = Some c' \<and> cart_ok c' \<and> c_items c' = c_items c"
  by (auto simp: saveAndRespond_def split: sum.splits dest: cart_save_ok)

lemma addToCart_ok:
  "addToCart u pid quantity newId s = (Inr c, s') \<Longrightarrow> carts s' (u_id u) = Some c \<and> cart_ok c"
  by (auto simp: addToCart_def Let_def split: option.splits if_splits sum.splits
      dest!: saveAndRespond_ok)

lemma updateCartItem_ok:
  "updateCartItem u itemId quantity s = (Inr c, s') \<Longrightarrow> carts s' (u_id u) = Some c \<and> cart_ok c"
  by (auto simp: updateCartItem_def split: option.splits if_splits dest!: saveAndRespond_ok)

lemma removeFromCart_ok:
  "removeFromCart u itemId s = (Inr c, s') \<Longrightarrow> carts s' (u_id u) = Some c \<and> cart_ok c"
  by (auto simp: removeFromCart_def split: option.splits dest!: saveAndRespond_ok)

lemma clearCart_ok:
  "clearCart u s = (Inr c, s') \<Longrightarrow> carts s' (u_id u) = Some c \<and> cart_ok c \<and> c_items c = []"
  by (auto simp: clearCart_def split: option.splits dest!: saveAndRespond_ok)

text \<open>
  C8. After a cart mutation that succeeds (add, update, remove, clear), the cart persisted
  for the user is the one answered, and its \<open>totalPrice\<close> equals the sum over its current
  lines of price times quantity.
\<close>

theorem cart_total_after_mutation:
  "(addToCart u pid quantity newId s = (Inr c1, s1) \<longrightarrow>
      carts s1 (u_id u) = Some c1
      \<and> c_totalPrice c1 = (\<Sum>item\<leftarrow>c_items c1. ci_price item * ci_quantity item))
   \<and> (updateCartItem u itemId quantity' s = (Inr c2, s2) \<longrightarrow>
      carts s2 (u_id u) = Some c2
      \<and> c_totalPrice c2 = (\<Sum>item\<leftarrow>c_items c2. ci_price item * ci_quantity item))
   \<and> (removeFromCart u itemId' s = (Inr c3, s3) \<longrightarrow>
      carts s3 (u_id u) = Some c3
      \<and> c_totalPrice c3 = (\<Sum>item\<leftarrow>c_items c3. ci_price item * ci_quantity item))
   \<and> (clearCart u s = (Inr c4, s4) \<longrightarrow>
      carts s4 (u_id u) = Some c4
      \<and> c_totalPrice c4 = (\<Sum>item\<leftarrow>c_items c4. ci_price item * ci_quantity item))"
  using addToCart_ok [of u pid quantity newId s c1 s1]
    updateCartItem_ok [of u itemId quantity' s c2 s2]
    removeFromCart_ok [of u itemId' s c3 s3] clearCart_ok [of u s c4 s4]
  by (simp add: cart_ok_def)

lemma shopWithCart_eq:
  "shopWithCart =
     \<lparr>products = [idA \<mapsto> productA, idB \<mapsto> productB],
      carts = [''alice'' \<mapsto>
        \<lparr>c_items = [\<lparr>ci_id = ''line1'', ci_product = idA, ci_quantity = 3, ci_price = 10\<rparr>],
          c_totalPrice = 30\<rparr>],
      orders = []\<rparr>"
  by (simp add: shopWithCart_def addToCart_def shop_def alice_def productA_def Cart_create_def
      cart_save_def saveAndRespond_def cartTotal_def Let_def)

theorem cart_total_after_mutation_witness:
  "(\<exists>c s'. addToCart alice idA 1 ''line2'' shopWithCart = (Inr c, s')
       \<and> carts s' ''alice'' = Some c \<and> c_totalPrice c = 40
       \<and> c_totalPrice c = (\<Sum>item\<leftarrow>c_items c. ci_price item * ci_quantity item))
   \<and> (\<exists>c s'. updateCartItem alice ''line1'' 2 shopWithCart = (Inr c, s')
       \<and> carts s' ''alice'' = Some c \<and> c_totalPrice c = 20
       \<and> c_totalPrice c = (\<Sum>item\<leftarrow>c_items c. ci_price item * ci_quantity item))
   \<and> (\<exists>c s'. removeFromCart alice ''line1'' shopWithCart = (Inr c, s')
       \<and> carts s' ''alice'' = Some c \<and> c_totalPrice c = 0
       \<and> c_totalPrice c = (\<Sum>item\<leftarrow>c_items c. ci_price item * ci_quantity item))
   \<and> (\<exists>c s'. clearCart alice shopWithCart = (Inr c, s')
       \<and> carts s' ''alice'' = Some c \<and> c_totalPrice c = 0
       \<and> c_totalPrice c = (\<Sum>item\<leftarrow>c_items c. ci_price item * ci_quantity item))"
proof -
  obtain c1 s1 where r1: "addToCart alice idA 1 ''line2'' shopWithCart = (Inr c1, s1)"
    and t1: "c_totalPrice c1 = 40"
    by (simp add: shopWithCart_eq addToCart_def alice_def productA_def cart_save_def
        saveAndRespond_def cartTotal_def Let_def)
  obtain c2 s2 where r2: "updateCartItem alice ''line1'' 2 shopWithCart = (Inr c2, s2)"
    and t2: "c_totalPrice c2 = 20"
    by (simp add: shopWithCart_eq updateCartItem_def alice_def productA_def cart_save_def
        saveAndRespond_def cartTotal_def Let_def)
  obtain c3 s3 where r3: "removeFromCart alice ''line1'' shopWithCart = (Inr c3, s3)"
    and t3: "c_totalPrice c3 = 0"
    by (simp add: shopWithCart_eq removeFromCart_def alice_def cart_save_def
        saveAndRespond_def cartTotal_def splice1_def Let_def)
  obtain c4 s4 where r4: "clearCart alice shopWithCart = (Inr c4, s4)"
    and t4: "c_totalPrice c4 = 0"
    by (simp add: shopWithCart_eq clearCart_def alice_def cart_save_def
        saveAndRespond_def cartTotal_def Let_def)
  have u: "u_id alice = ''alice''" by (simp add: alice_def)
  from cart_total_after_mutation [of alice "idA" 1 "''line2''" shopWithCart c1 s1
      "''line1''" 2 c2 s2 "''line1''" c3 s3 c4 s4] r1 r2 r3 r4 t1 t2 t3 t4 u
  show ?thesis by simp
qed

section \<open>Adding to a cart beyond the stock\<close>

text \<open>
  What \<open>addToCart\<close> does check: a request fails with a 400 error about insufficient stock,
  and the persisted state is unchanged, when the requested quantity exceeds the stock
  alone or together with the quantity of the line found for the request.
\<close>

lemma addToCart_found_line:
  assumes "castObjectId productId = Some pid" and "products s pid = Some p"
    and "p_stock p < foundQuantity s (u_id u) productId + quantity"
  shows "addToCart u productId quantity newId s
           = (Inl (ErrorResponse (InsufficientStockAvailable (p_stock p)) 400), s)
       \<or> addToCart u productId quantity newId s
           = (Inl (ErrorResponse (CannotAddMoreThanAvailable (p_stock p)) 400), s)"
proof (cases "p_stock p < quantity")
  case True
  with assms(1,2) show ?thesis by (simp add: addToCart_def)
next
  case False
  with assms(3) have pos: "foundQuantity s (u_id u) productId \<noteq> 0" by auto
  then obtain c where c: "carts s (u_id u) = Some c"
    by (auto simp: foundQuantity_def split: option.splits)
  with pos obtain item where
    item: "find (\<lambda>item. ci_product item = productId) (c_items c) = Some item"
    by (auto simp: foundQuantity_def split: option.splits)
  then obtain i where i: "findIndex (\<lambda>item. ci_product item = productId) (c_items c) = Some i"
    using findIndex_None_find [of "\<lambda>item. ci_product item = productId" "c_items c"]
    by (cases "findIndex (\<lambda>item. ci_product item = productId) (c_items c)") auto
  from findIndex_Some_find [OF i] item have nth: "c_items c ! i = item" by simp
  from c item have "foundQuantity s (u_id u) productId = ci_quantity item"
    by (simp add: foundQuantity_def)
  with assms(3) have "p_stock p < ci_quantity item + quantity" by simp
  with False assms(1,2) c i nth show ?thesis
    by (simp add: addToCart_def Let_def)
qed

text \<open>
  The scenario of the specification: with 3 units of product A (price 10.00, stock 5) in
  the cart, total 30.00, adding 3 more under the same spelling of the id fails and the
  cart stays as it is.
\<close>

lemma addToCart_scenario:
  "carts shopWithCart ''alice''
     = Some \<lparr>c_items = [\<lparr>ci_id = ''line1'', ci_product = idA, ci_quantity = 3, ci_price = 10\<rparr>],
             c_totalPrice = 30\<rparr>
   \<and> addToCart alice idA 3 ''line2'' shopWithCart
     = (Inl (ErrorResponse (CannotAddMoreThanAvailable 5) 400), shopWithCart)"
proof -
  have "addToCart alice idA 3 ''line2'' shopWithCart
     = (Inl (ErrorResponse (CannotAddMoreThanAvailable 5) 400), shopWithCart)"
    by (simp add: addToCart_def) (simp add: shopWithCart_eq alice_def productA_def)
  then show ?thesis by (simp add: shopWithCart_eq)
qed

lemma respelled_eq:
  "respelled =
    (Inr \<lparr>c_items = [\<lparr>ci_id = ''line1'', ci_product = idA, ci_quantity = 3, ci_price = 10\<rparr>,
                      \<lparr>ci_id = ''line2'', ci_product = idA, ci_quantity = 3, ci_price = 10\<rparr>],
           c_totalPrice = 60\<rparr>,
     \<lparr>products = [idA \<mapsto> productA, idB \<mapsto> productB],
      carts = [''alice'' \<mapsto>
        \<lparr>c_items = [\<lparr>ci_id = ''line1'', ci_product = idA, ci_quantity = 3, ci_price = 10\<rparr>,
                    \<lparr>ci_id = ''line2'', ci_product = idA, ci_quantity = 3, ci_price = 10\<rparr>],
          c_totalPrice = 60\<rparr>],
      orders = []\<rparr>)"
  by (simp add: respelled_def shopWithCart_eq addToCart_def alice_def productA_def
      cart_save_def saveAndRespond_def cartTotal_def Let_def)

lemma toppedUp_eq:
  "toppedUp =
    (Inr \<lparr>c_items = [\<lparr>ci_id = ''line1'', ci_product = idA, ci_quantity = 5, ci_price = 10\<rparr>,
                      \<lparr>ci_id = ''line2'', ci_product = idA, ci_quantity = 3, ci_price = 10\<rparr>],
           c_totalPrice = 80\<rparr>,
     \<lparr>products = [idA \<mapsto> productA, idB \<mapsto> productB],
      carts = [''alice'' \<mapsto>
        \<lparr>c_items = [\<lparr>ci_id = ''line1'', ci_product = idA, ci_quantity = 5, ci_price = 10\<rparr>,
                    \<lparr>ci_id = ''line2'', ci_product = idA, ci_quantity = 3, ci_price = 10\<rparr>],
          c_totalPrice = 80\<rparr>],
      orders = []\<rparr>)"
  by (simp add: toppedUp_def respelled_eq addToCart_def alice_def productA_def
      cart_save_def saveAndRespond_def cartTotal_def Let_def)

text \<open>
  C5. An \<open>addToCart\<close> whose quantity, added to the quantity of the product already in the
  cart, exceeds the stock should fail with a 400 error and leave the cart unchanged.
  The controller does not deliver this for every cart and request. The line of the
  product is searched by comparing the stored id's string with the request's string, so a
  request that spells the id in upper-case digits finds the product but not its line:
  with 3 units in the cart and 5 in stock, 3 more are accepted and stored on a second
  line, 6 units in all. And only the line found is counted: on that cart, 2 more units
  under the stored spelling are accepted as well, 8 units in all.
\<close>

theorem addToCart_respelled_oversells:
  "castObjectId idA_upper = Some idA
   \<and> map_option p_stock (products shopWithCart idA) = Some 5
   \<and> cartQuantity shopWithCart ''alice'' idA = 3
   \<and> \<not> isl (fst respelled)
   \<and> map_option (map ci_product \<circ> c_items) (carts (snd respelled) ''alice'') = Some [idA, idA]
   \<and> map_option (map ci_quantity \<circ> c_items) (carts (snd respelled) ''alice'') = Some [3, 3]
   \<and> cartQuantity (snd respelled) ''alice'' idA = 6
   \<and> map_option p_stock (products (snd respelled) idA) = Some 5
   \<and> \<not> isl (fst toppedUp)
   \<and> map_option (map ci_quantity \<circ> c_items) (carts (snd toppedUp) ''alice'') = Some [5, 3]
   \<and> cartQuantity (snd toppedUp) ''alice'' idA = 8"
  by (simp add: respelled_eq toppedUp_eq shopWithCart_eq cartQuantity_def productA_def)

section \<open>Order creation properties\<close>

lemma verifyStock_shortLine:
  "list_ex (shortLine s) ls \<Longrightarrow> verifyStock (products s) ls \<noteq> None"
  by (induction ls) (auto simp: shortLine_def split: option.splits)

text \<open>
  What the first loop of \<open>createOrder\<close> does guarantee: if a line names a missing product or
  by itself asks for more than the stored stock, the request fails before anything is
  written.
\<close>

lemma createOrder_first_loop:
  assumes "ob_orderItems body = Some ls" and "list_ex (shortLine s) ls"
  shows "isl (fst (createOrder u body newId s)) \<and> snd (createOrder u body newId s) = s"
  using assms verifyStock_shortLine [of s ls]
  by (auto simp: createOrder_def split: option.splits)

text \<open>
  The scenario of the specification: one valid line and one line that exceeds the stock;
  the request fails and the state, the stock of the valid line included, is unchanged.
\<close>

lemma createOrder_scenario:
  "createOrder alice (orderRequest [line idA 1 10, line idB 3 25] 85 0 0 85) ''order1'' shop
     = (Inl (ErrorResponse (ProductOutOfStock ''Product B'') 400), shop)"
  by (simp add: createOrder_def orderRequest_def)
     (simp add: shop_def line_def productA_def productB_def)

lemma twoLines_eq:
  "twoLines =
    (Inl (ValidationError ''Stock cannot be negative''),
     \<lparr>products = [idA \<mapsto> productA\<lparr>p_stock := 0\<rparr>],
      carts = Map.empty,
      orders = [\<lparr>o_id = ''order1'', o_user = ''alice'',
           o_orderItems = [line idA 1 10, line idA 1 10],
           o_shippingAddress = ''1 Main Street'', o_paymentMethod = ''card'',
           o_paymentResult = None, o_itemsPrice = 20, o_taxPrice = 0, o_shippingPrice = 0,
           o_totalPrice = 20, o_isPaid = False, o_paidAt = None, o_isDelivered = False,
           o_deliveredAt = None, o_status = ''pending''\<rparr>]\<rparr>)"
  by (simp add: twoLines_def createOrder_def orderRequest_def lastUnit_def alice_def
      Order_create_def product_save_def productA_def Let_def)
     (simp add: line_def)

text \<open>
  C6. \<open>createOrder\<close> should be all-or-nothing: if a requested line names a missing product
  or exceeds the product's available stock, the request fails, no order is persisted and
  no stock changes. The controller does not deliver this when lines exceed the stock
  together. Its first loop tests each line alone against the stored stock, the order is
  created before the stock loop, and nothing is undone when a \<open>save\<close> in the stock loop is
  rejected: with one unit of product A in stock, a request with two lines of one unit of
  A each fails with the validation error, and yet the order is stored and the stock of A
  has gone from 1 to 0.
\<close>

theorem createOrder_partial_failure:
  "list_ex (unavailable lastUnit [line idA 1 10, line idA 1 10]) [line idA 1 10, line idA 1 10]
   \<and> orders lastUnit = []
   \<and> map_option p_stock (products lastUnit idA) = Some 1
   \<and> fst twoLines = Inl (ValidationError ''Stock cannot be negative'')
   \<and> map o_id (orders (snd twoLines)) = [''order1'']
   \<and> map (map oi_quantity \<circ> o_orderItems) (orders (snd twoLines)) = [[1, 1]]
   \<and> map_option p_stock (products (snd twoLines) idA) = Some 0"
proof -
  have "list_ex (unavailable lastUnit [line idA 1 10, line idA 1 10])
          [line idA 1 10, line idA 1 10]"
    by (simp add: unavailable_def requested_def lastUnit_def line_def productA_def)
  moreover have "orders lastUnit = [] \<and> map_option p_stock (products lastUnit idA) = Some 1"
    by (simp add: lastUnit_def productA_def)
  moreover have "fst twoLines = Inl (ValidationError ''Stock cannot be negative'')
      \<and> map o_id (orders (snd twoLines)) = [''order1'']
      \<and> map (map oi_quantity \<circ> o_orderItems) (orders (snd twoLines)) = [[1, 1]]
      \<and> map_option p_stock (products (snd twoLines) idA) = Some 0"
    by (simp add: twoLines_eq line_def productA_def)
  ultimately show ?thesis by blast
qed

lemma product_save_others:
  "product_save pid p s = Inr s' \<Longrightarrow> orders s' = orders s \<and> carts s' = carts s"
  by (auto simp: product_save_def split: if_splits)

lemma updateStock_others:
  "updateStock ls s = (r, s') \<Longrightarrow> orders s' = orders s \<and> carts s' = carts s"
proof (induction ls s arbitrary: r s' rule: updateStock.induct)
  case (1 s)
  then show ?case by simp
next
  case (2 pid quantity rest s)
  show ?case
  proof (cases "products s pid")
    case None
    with 2(2) show ?thesis by simp
  next
    case (Some product)
    show ?thesis
    proof (cases "product_save pid (product\<lparr>p_stock := p_stock product - quantity\<rparr>) s")
      case (Inl e)
      with Some 2(2) show ?thesis by simp
    next
      case (Inr s1)
      with Some 2(2) have "updateStock rest s1 = (r, s')" by simp
      from 2(1) [OF Some Inr this] product_save_others [OF Inr] show ?thesis by simp
    qed
  qed
qed

section \<open>Settlement properties\<close>

lemma processPayment_success:
  assumes "processPayment gw u pid addr newId now s = (Inr ord, s')"
  obtains intent cart s2 where
    "gw pid = Some intent" and "pi_status intent = ''succeeded''"
    and "carts s (u_id u) = Some cart" and "c_items cart \<noteq> []"
    and "o_itemsPrice ord = c_totalPrice cart"
    and "o_taxPrice ord = c_totalPrice cart * (7 / 100)"
    and "o_shippingPrice ord = 10"
    and "o_totalPrice ord = c_totalPrice cart + c_totalPrice cart * (7 / 100) + 10"
    and "updateStock (map (\<lambda>item. (ci_product item, ci_quantity item)) (c_items cart))
               (Order_create ord s) = (None, s2)"
    and "s' = s2\<lparr>carts := (carts s2)(u_id u := None)\<rparr>"
proof -
  from assms obtain intent where intent: "gw pid = Some intent"
    by (auto simp: processPayment_def split: option.splits)
  from assms intent have ok: "pi_status intent = ''succeeded''"
    by (auto simp: processPayment_def split: if_splits)
  from assms intent ok obtain cart where cart: "carts s (u_id u) = Some cart"
    by (auto simp: processPayment_def split: option.splits)
  from assms intent ok cart have ne: "c_items cart \<noteq> []"
    by (auto simp: processPayment_def split: if_splits)
  from assms intent ok cart ne obtain ois where
    ois: "cartOrderItems (products s) (c_items cart) = Some ois"
    by (auto simp: processPayment_def split: option.splits)
  from assms intent ok cart ne ois have
    "\<exists>s2. o_itemsPrice ord = c_totalPrice cart
        \<and> o_taxPrice ord = c_totalPrice cart * (7 / 100)
        \<and> o_shippingPrice ord = 10
        \<and> o_totalPrice ord = c_totalPrice cart + c_totalPrice cart * (7 / 100) + 10
        \<and> updateStock (map (\<lambda>item. (ci_product item, ci_quantity item)) (c_items cart))
               (Order_create ord s) = (None, s2)
        \<and> s' = s2\<lparr>carts := (carts s2)(u_id u := None)\<rparr>"
    by (simp add: processPayment_def Let_def split: prod.splits option.splits) auto
  then obtain s2 where
    "o_itemsPrice ord = c_totalPrice cart"
    "o_taxPrice ord = c_totalPrice cart * (7 / 100)"
    "o_shippingPrice ord = 10"
    "o_totalPrice ord = c_totalPrice cart + c_totalPrice cart * (7 / 100) + 10"
    "updateStock (map (\<lambda>item. (ci_product item, ci_quantity item)) (c_items cart))
               (Order_create ord s) = (None, s2)"
    "s' = s2\<lparr>carts := (carts s2)(u_id u := None)\<rparr>"
    by (elim exE conjE)
  with intent ok cart ne show thesis by (rule that)
qed

lemma settled_eq:
  "settled =
    (Inr \<lparr>o_id = ''order1'', o_user = ''alice'',
           o_orderItems = [\<lparr>oi_product = idA, oi_name = ''Product A'', oi_quantity = 3,
                            oi_price = 10, oi_image = ''''\<rparr>],
           o_shippingAddress = ''1 Main Street'', o_paymentMethod = ''stripe'',
           o_paymentResult = Some \<lparr>pr_id = ''pi_1'', pr_status = ''succeeded'',
                                   pr_update_time = Millis 1000,
                                   pr_email_address = ''alice@example.com''\<rparr>,
           o_itemsPrice = 30, o_taxPrice = 21 / 10, o_shippingPrice = 10,
           o_totalPrice = 421 / 10, o_isPaid = True, o_paidAt = Some 1000,
           o_isDelivered = False, o_deliveredAt = None, o_status = ''pending''\<rparr>,
     \<lparr>products = [idB \<mapsto> productB, idA \<mapsto> productA\<lparr>p_stock := 2\<rparr>],
      carts = Map.empty,
      orders = [\<lparr>o_id = ''order1'', o_user = ''alice'',
           o_orderItems = [\<lparr>oi_product = idA, oi_name = ''Product A'', oi_quantity = 3,
                            oi_price = 10, oi_image = ''''\<rparr>],
           o_shippingAddress = ''1 Main Street'', o_paymentMethod = ''stripe'',
           o_paymentResult = Some \<lparr>pr_id = ''pi_1'', pr_status = ''succeeded'',
                                   pr_update_time = Millis 1000,
                                   pr_email_address = ''alice@example.com''\<rparr>,
           o_itemsPrice = 30, o_taxPrice = 21 / 10, o_shippingPrice = 10,
           o_totalPrice = 421 / 10, o_isPaid = True, o_paidAt = Some 1000,
           o_isDelivered = False, o_deliveredAt = None, o_status = ''pending''\<rparr>]\<rparr>)"
  by (simp add: settled_def shopWithCart_eq processPayment_def gatewayPaid_def alice_def
      Order_create_def product_save_def firstImage_def productA_def productB_def Let_def)

lemma verifyItems_cart_total:
  assumes "list_all2 (\<lambda>i c. oi_product i = ci_product c \<and> oi_quantity i = ci_quantity c) xs cs"
    and "list_all (\<lambda>ci. case ps (ci_product ci) of None \<Rightarrow> False
                         | Some p \<Rightarrow> p_price p = ci_price ci) cs"
    and "verifyItems ps xs t acc = Inr (t', acc')"
  shows "t' = t + (\<Sum>ci\<leftarrow>cs. ci_price ci * ci_quantity ci)"
  using assms
proof (induction xs cs arbitrary: t acc rule: list_all2_induct)
  case Nil
  then show ?case by simp
next
  case (Cons x xs c cs)
  from Cons.prems(1) obtain p where p: "ps (ci_product c) = Some p" "p_price p = ci_price c"
    by (auto split: option.splits)
  from Cons.prems(2) p Cons.hyps(1) have
    rest: "verifyItems ps xs (t + ci_price c * ci_quantity c)
             (acc @ [\<lparr>oi_product = oi_product x, oi_name = p_name p,
                      oi_quantity = oi_quantity x, oi_price = p_price p,
                      oi_image = firstImage p\<rparr>]) = Inr (t', acc')"
    by (simp split: if_splits)
  from Cons.prems(1) have "list_all (\<lambda>ci. case ps (ci_product ci) of None \<Rightarrow> False
                         | Some p \<Rightarrow> p_price p = ci_price ci) cs" by simp
  from Cons.IH [OF this rest] show ?case by (simp add: add.assoc)
qed

text \<open>
  C1 (amended). For a cart that satisfies its total invariant and whose lines carry the
  current catalogue prices, a payment intent requested for the same products and
  quantities with a shipping charge of 10, and the order that \<open>processPayment\<close> creates
  from that cart, agree: same items price, same tax, same shipping price, and the amount
  sent to the gateway is the order total in minor units.
\<close>

theorem intent_amount_matches_order:
  assumes "carts s (u_id u) = Some cart" and "cart_ok cart" and "snapshotCurrent s cart"
    and "sameItems (ib_items body) (c_items cart)"
    and "shippingAmountOf (ib_shipping body) = 10"
    and "createPaymentIntent s u n body = Inr (q, params)"
    and "processPayment gw u pid addr newId now s = (Inr ord, s')"
  shows "q_totalAmount q = o_itemsPrice ord \<and> q_taxAmount q = o_taxPrice ord
       \<and> q_shippingAmount q = o_shippingPrice ord
       \<and> ip_amount params = Math_round (o_totalPrice ord * 100)"
proof -
  from assms(6) obtain t acc where
    v: "verifyItems (products s) (ib_items body) 0 [] = Inr (t, acc)"
    and q: "q = computeQuote t (ib_shipping body)" and a: "ip_amount params = q_finalAmount q"
    by (auto simp: createPaymentIntent_def Let_def split: sum.splits)
  from verifyItems_cart_total [OF _ _ v, of "c_items cart"] assms(2,3,4)
  have t: "t = c_totalPrice cart"
    by (simp add: sameItems_def snapshotCurrent_def cart_ok_def)
  have o: "o_itemsPrice ord = c_totalPrice cart \<and> o_taxPrice ord = c_totalPrice cart * (7 / 100)
    \<and> o_shippingPrice ord = 10
    \<and> o_totalPrice ord = c_totalPrice cart + c_totalPrice cart * (7 / 100) + 10"
  proof (rule processPayment_success [OF assms(7)])
    fix cart'
    assume "carts s (u_id u) = Some cart'"
      and "o_itemsPrice ord = c_totalPrice cart'"
      and "o_taxPrice ord = c_totalPrice cart' * (7 / 100)"
      and "o_shippingPrice ord = 10"
      and "o_totalPrice ord = c_totalPrice cart' + c_totalPrice cart' * (7 / 100) + 10"
    with assms(1) show ?thesis by simp
  qed
  from q a t o assms(5) show ?thesis
    by (simp add: computeQuote_def taxRate_def Let_def)
qed

theorem intent_amount_matches_order_witness:
  "(\<exists>q params. createPaymentIntent shopWithCart alice 0 (intentRequest [line idA 3 0] 10)
        = Inr (q, params) \<and> ip_amount params = 4210)
   \<and> map_sum id o_totalPrice (fst settled) = Inr (421 / 10)
   \<and> Math_round (421 / 10 * 100) = 4210"
proof -
  have cart: "carts shopWithCart (u_id alice) = Some \<lparr>c_items =
      [\<lparr>ci_id = ''line1'', ci_product = idA, ci_quantity = 3, ci_price = 10\<rparr>],
      c_totalPrice = 30\<rparr>"
    by (simp add: shopWithCart_eq alice_def)
  obtain q params where i: "createPaymentIntent shopWithCart alice 0
      (intentRequest [line idA 3 0] 10) = Inr (q, params)"
    by (simp add: createPaymentIntent_def intentRequest_def line_def shopWithCart_eq productA_def
        Let_def)
  obtain ord s' where p: "processPayment gatewayPaid alice ''pi_1'' ''1 Main Street''
      ''order1'' 1000 shopWithCart = (Inr ord, s')" and total: "o_totalPrice ord = 421 / 10"
    using settled_eq by (simp add: settled_def)
  have "ip_amount params = Math_round (o_totalPrice ord * 100)"
    using intent_amount_matches_order [OF cart _ _ _ _ i p]
    by (simp add: cart_ok_def snapshotCurrent_def sameItems_def intentRequest_def line_def
        shippingAmountOf_def shopWithCart_eq productA_def)
  then have "ip_amount params = Math_round (421 / 10 * 100)"
    by (simp only: total)
  moreover have r: "Math_round (421 / 10 * 100) = 4210"
    by (simp add: Math_round_def)
  moreover have "map_sum id o_totalPrice (fst settled) = Inr (421 / 10)"
    by (simp add: settled_eq)
  ultimately show ?thesis
    using i by (intro conjI exI [of _ q] exI [of _ params]) simp_all
qed

theorem intent_amount_differs_from_order_counterexample:
  "map_sum id (ip_amount \<circ> snd)
      (createPaymentIntent shopWithCart alice 0 (intentRequest [line idA 3 10] 5)) = Inr 3710
   \<and> map_sum id (ip_amount \<circ> snd)
      (createPaymentIntent repricedShop alice 0 (intentRequest [line idA 3 10] 10)) = Inr 4852
   \<and> map_sum id (Math_round \<circ> times 100 \<circ> o_totalPrice)
      (fst (processPayment gatewayPaid alice ''pi_1'' ''1 Main Street'' ''order1'' 1000
              shopWithCart)) = Inr 4210
   \<and> map_sum id (Math_round \<circ> times 100 \<circ> o_totalPrice)
      (fst (processPayment gatewayPaid alice ''pi_1'' ''1 Main Street'' ''order1'' 1000
              repricedShop)) = Inr 4210"
proof (intro conjI)
  show "map_sum id (ip_amount \<circ> snd)
      (createPaymentIntent shopWithCart alice 0 (intentRequest [line idA 3 10] 5)) = Inr 3710"
    by (simp add: createPaymentIntent_def intentRequest_def line_def shopWithCart_eq productA_def
        computeQuote_def taxRate_def shippingAmountOf_def Math_round_def Let_def)
  show "map_sum id (ip_amount \<circ> snd)
      (createPaymentIntent repricedShop alice 0 (intentRequest [line idA 3 10] 10)) = Inr 4852"
    by (simp add: createPaymentIntent_def intentRequest_def line_def repricedShop_def
        shopWithCart_eq productA_def
        computeQuote_def taxRate_def shippingAmountOf_def Math_round_def Let_def)
  show "map_sum id (Math_round \<circ> times 100 \<circ> o_totalPrice)
      (fst (processPayment gatewayPaid alice ''pi_1'' ''1 Main Street'' ''order1'' 1000
              shopWithCart)) = Inr 4210"
    using settled_eq by (simp add: settled_def Math_round_def)
  show "map_sum id (Math_round \<circ> times 100 \<circ> o_totalPrice)
      (fst (processPayment gatewayPaid alice ''pi_1'' ''1 Main Street'' ''order1'' 1000
              repricedShop)) = Inr 4210"
    by (simp add: repricedShop_def shopWithCart_eq processPayment_def gatewayPaid_def alice_def
      Order_create_def product_save_def firstImage_def productA_def productB_def Let_def
      Math_round_def)
qed

section \<open>Order totals\<close>

lemma processPayment_orders:
  assumes "processPayment gw u pid addr newId now s = (Inr ord, s')"
  shows "orders s' = orders s @ [ord] \<and> carts s' (u_id u) = None"
proof (rule processPayment_success [OF assms])
  fix cart s2
  assume run: "updateStock (map (\<lambda>item. (ci_product item, ci_quantity item)) (c_items cart))
            (Order_create ord s) = (None, s2)"
    and s': "s' = s2\<lparr>carts := (carts s2)(u_id u := None)\<rparr>"
  from updateStock_others [OF run] s' show ?thesis
    by (simp add: Order_create_def)
qed

lemma createOrder_success:
  assumes "createOrder u body newId s = (Inr ord, s')"
  shows "orders s' = orders s @ [ord]
       \<and> o_itemsPrice ord = ob_itemsPrice body \<and> o_taxPrice ord = ob_taxPrice body
       \<and> o_shippingPrice ord = ob_shippingPrice body \<and> o_totalPrice ord = ob_totalPrice body"
proof -
  from assms obtain ls where ls: "ob_orderItems body = Some ls"
    by (auto simp: createOrder_def split: option.splits)
  from assms ls have ne: "ls \<noteq> []"
    by (auto simp: createOrder_def split: if_splits)
  from assms ls ne have v: "verifyStock (products s) ls = None"
    by (auto simp: createOrder_def split: option.splits)
  obtain r s2 where run: "updateStock (map (\<lambda>item. (oi_product item, oi_quantity item)) ls)
      (Order_create \<lparr>o_id = newId, o_user = u_id u, o_orderItems = ls,
         o_shippingAddress = ob_shippingAddress body, o_paymentMethod = ob_paymentMethod body,
         o_paymentResult = None, o_itemsPrice = ob_itemsPrice body,
         o_taxPrice = ob_taxPrice body, o_shippingPrice = ob_shippingPrice body,
         o_totalPrice = ob_totalPrice body, o_isPaid = False, o_paidAt = None,
         o_isDelivered = False, o_deliveredAt = None, o_status = ''pending''\<rparr> s) = (r, s2)"
    by (cases "updateStock (map (\<lambda>item. (oi_product item, oi_quantity item)) ls)
      (Order_create \<lparr>o_id = newId, o_user = u_id u, o_orderItems = ls,
         o_shippingAddress = ob_shippingAddress body, o_paymentMethod = ob_paymentMethod body,
         o_paymentResult = None, o_itemsPrice = ob_itemsPrice body,
         o_taxPrice = ob_taxPrice body, o_shippingPrice = ob_shippingPrice body,
         o_totalPrice = ob_totalPrice body, o_isPaid = False, o_paidAt = None,
         o_isDelivered = False, o_deliveredAt = None, o_status = ''pending''\<rparr> s)")
  from assms ls ne v run updateStock_others [OF run] show ?thesis
    by (auto simp: createOrder_def Let_def Order_create_def split: option.splits)
qed

lemma processPayment_stored:
  "orders (snd (processPayment gw u pid addr newId now s)) = orders s
   \<or> (\<exists>ord. orders (snd (processPayment gw u pid addr newId now s)) = orders s @ [ord]
          \<and> o_totalPrice ord = o_itemsPrice ord + o_taxPrice ord + o_shippingPrice ord)"
proof -
  let ?p = "processPayment gw u pid addr newId now s"
  show ?thesis
  proof (cases "gw pid")
    case None
    then show ?thesis by (simp add: processPayment_def)
  next
    case (Some intent)
    note intent = Some
    show ?thesis
    proof (cases "pi_status intent = ''succeeded''")
      case False
      with intent show ?thesis by (simp add: processPayment_def)
    next
      case True
      note ok = True
      show ?thesis
      proof (cases "carts s (u_id u)")
        case None
        with intent ok show ?thesis by (simp add: processPayment_def)
      next
        case (Some cart)
        note cart = Some
        show ?thesis
        proof (cases "c_items cart = []")
          case True
          with intent ok cart show ?thesis by (simp add: processPayment_def)
        next
          case False
          note ne = False
          show ?thesis
          proof (cases "cartOrderItems (products s) (c_items cart)")
            case None
            with intent ok cart ne show ?thesis by (simp add: processPayment_def)
          next
            case (Some ois)
            define ord where
              "ord = \<lparr>o_id = newId, o_user = u_id u, o_orderItems = ois,
                          o_shippingAddress = addr,
                          o_paymentMethod = ''stripe'',
                          o_paymentResult =
                            Some \<lparr>pr_id = pid, pr_status = pi_status intent,
                                  pr_update_time = Millis now,
                                  pr_email_address = u_email u\<rparr>,
                          o_itemsPrice = c_totalPrice cart,
                          o_taxPrice = c_totalPrice cart * (7 / 100),
                          o_shippingPrice = 10,
                          o_totalPrice = c_totalPrice cart + c_totalPrice cart * (7 / 100) + 10,
                          o_isPaid = True, o_paidAt = Some now,
                          o_isDelivered = False, o_deliveredAt = None,
                          o_status = ''pending''\<rparr>"
            define lines where
              "lines = map (\<lambda>item. (ci_product item, ci_quantity item)) (c_items cart)"
            obtain res s2 where loop: "updateStock lines (Order_create ord s) = (res, s2)"
              by (cases "updateStock lines (Order_create ord s)")
            have "?p = (case updateStock lines (Order_create ord s) of
                          (Some e, s2) \<Rightarrow> (Inl e, s2)
                        | (None, s2) \<Rightarrow> (Inr ord, s2\<lparr>carts := (carts s2)(u_id u := None)\<rparr>))"
              unfolding ord_def lines_def
              by (simp add: processPayment_def intent ok cart ne Some Let_def
                  split: prod.split option.split)
            then have "orders (snd ?p) = orders s2"
              by (simp add: loop split: option.split)
            moreover from updateStock_others [OF loop] have "orders s2 = orders s @ [ord]"
              by (simp add: Order_create_def)
            moreover have
              "o_totalPrice ord = o_itemsPrice ord + o_taxPrice ord + o_shippingPrice ord"
              by (simp add: ord_def)
            ultimately show ?thesis by auto
          qed
        qed
      qed
    qed
  qed
qed

lemma createOrder_stored:
  "orders (snd (createOrder u body newId s)) = orders s
   \<or> (\<exists>ord. orders (snd (createOrder u body newId s)) = orders s @ [ord]
          \<and> o_itemsPrice ord = ob_itemsPrice body \<and> o_taxPrice ord = ob_taxPrice body
          \<and> o_shippingPrice ord = ob_shippingPrice body
          \<and> o_totalPrice ord = ob_totalPrice body)"
proof (cases "ob_orderItems body")
  case None
  then show ?thesis by (simp add: createOrder_def)
next
  case (Some ls)
  note ls = Some
  show ?thesis
  proof (cases "ls = []")
    case True
    with ls show ?thesis by (simp add: createOrder_def)
  next
    case False
    note ne = False
    show ?thesis
    proof (cases "verifyStock (products s) ls")
      case (Some e)
      with ls ne show ?thesis by (simp add: createOrder_def)
    next
      case None
      define ord where
        "ord = \<lparr>o_id = newId, o_user = u_id u, o_orderItems = ls,
                 o_shippingAddress = ob_shippingAddress body,
                 o_paymentMethod = ob_paymentMethod body,
                 o_paymentResult = None,
                 o_itemsPrice = ob_itemsPrice body, o_taxPrice = ob_taxPrice body,
                 o_shippingPrice = ob_shippingPrice body,
                 o_totalPrice = ob_totalPrice body,
                 o_isPaid = False, o_paidAt = None,
                 o_isDelivered = False, o_deliveredAt = None,
                 o_status = ''pending''\<rparr>"
      define lines where "lines = map (\<lambda>item. (oi_product item, oi_quantity item)) ls"
      obtain res s2 where loop: "updateStock lines (Order_create ord s) = (res, s2)"
        by (cases "updateStock lines (Order_create ord s)")
      have "createOrder u body newId s =
              (case updateStock lines (Order_create ord s) of
                 (Some e, s2) \<Rightarrow> (Inl e, s2)
               | (None, s2) \<Rightarrow> (Inr ord, s2))"
        unfolding ord_def lines_def
        by (simp add: createOrder_def ls ne None Let_def split: prod.split option.split)
      then have "orders (snd (createOrder u body newId s)) = orders s2"
        by (simp add: loop split: option.split)
      moreover from updateStock_others [OF loop] have "orders s2 = orders s @ [ord]"
        by (simp add: Order_create_def)
      moreover have "o_itemsPrice ord = ob_itemsPrice body \<and> o_taxPrice ord = ob_taxPrice body
          \<and> o_shippingPrice ord = ob_shippingPrice body
          \<and> o_totalPrice ord = ob_totalPrice body"
        by (simp add: ord_def)
      ultimately show ?thesis by auto
    qed
  qed
qed

text \<open>
  C7 (amended). Every order that \<open>processPayment\<close> persists, whether the call then succeeds
  or fails in the stock loop, has a \<open>totalPrice\<close> equal to
  \<open>itemsPrice + taxPrice + shippingPrice\<close>: the controller computes it as that sum, so the
  equation holds exactly and hence within any rounding tolerance. Every order that
  \<open>createOrder\<close> persists, whether the call then succeeds or fails in the stock loop,
  carries the four prices the request declares, whatever they are. A call persists at
  most one order, appended to the stored ones, and a call that succeeds answers with it.
\<close>

theorem order_total_by_origin:
  "(orders (snd (processPayment gw u pid addr newId now s)) = orders s
     \<or> (\<exists>ord. orders (snd (processPayment gw u pid addr newId now s)) = orders s @ [ord]
            \<and> o_totalPrice ord = o_itemsPrice ord + o_taxPrice ord + o_shippingPrice ord))
   \<and> (processPayment gw u pid addr newId now s = (Inr ord1, s') \<longrightarrow>
        orders s' = orders s @ [ord1])
   \<and> (orders (snd (createOrder u2 body newId2 t)) = orders t
     \<or> (\<exists>ord. orders (snd (createOrder u2 body newId2 t)) = orders t @ [ord]
            \<and> o_itemsPrice ord = ob_itemsPrice body \<and> o_taxPrice ord = ob_taxPrice body
            \<and> o_shippingPrice ord = ob_shippingPrice body
            \<and> o_totalPrice ord = ob_totalPrice body))
   \<and> (createOrder u2 body newId2 t = (Inr ord2, t') \<longrightarrow> orders t' = orders t @ [ord2])"
proof (intro conjI impI)
  show "orders (snd (processPayment gw u pid addr newId now s)) = orders s
     \<or> (\<exists>ord. orders (snd (processPayment gw u pid addr newId now s)) = orders s @ [ord]
            \<and> o_totalPrice ord = o_itemsPrice ord + o_taxPrice ord + o_shippingPrice ord)"
    by (rule processPayment_stored)
next
  assume run: "processPayment gw u pid addr newId now s = (Inr ord1, s')"
  from processPayment_orders [OF run] show "orders s' = orders s @ [ord1]" by simp
next
  show "orders (snd (createOrder u2 body newId2 t)) = orders t
     \<or> (\<exists>ord. orders (snd (createOrder u2 body newId2 t)) = orders t @ [ord]
            \<and> o_itemsPrice ord = ob_itemsPrice body \<and> o_taxPrice ord = ob_taxPrice body
            \<and> o_shippingPrice ord = ob_shippingPrice body
            \<and> o_totalPrice ord = ob_totalPrice body)"
    by (rule createOrder_stored)
next
  assume run: "createOrder u2 body newId2 t = (Inr ord2, t')"
  from createOrder_success [OF run] show "orders t' = orders t @ [ord2]" by simp
qed

lemma failedSettle_facts:
  "fst failedSettle = Inl (ValidationError ''Stock cannot be negative'')
   \<and> map o_id (orders (snd failedSettle)) = [''order1'']
   \<and> map o_itemsPrice (orders (snd failedSettle)) = [30]
   \<and> map o_taxPrice (orders (snd failedSettle)) = [21 / 10]
   \<and> map o_shippingPrice (orders (snd failedSettle)) = [10]
   \<and> map o_totalPrice (orders (snd failedSettle)) = [421 / 10]
   \<and> orders stockDropped = []"
  by (simp add: failedSettle_def stockDropped_def shopWithCart_eq processPayment_def
      gatewayPaid_def alice_def Order_create_def product_save_def firstImage_def productA_def
      productB_def Let_def)

lemma mispriced_eq:
  "mispriced =
    (Inr \<lparr>o_id = ''order1'', o_user = ''alice'', o_orderItems = [line idA 1 10],
           o_shippingAddress = ''1 Main Street'', o_paymentMethod = ''card'',
           o_paymentResult = None, o_itemsPrice = 10, o_taxPrice = 1, o_shippingPrice = 1,
           o_totalPrice = 0, o_isPaid = False, o_paidAt = None, o_isDelivered = False,
           o_deliveredAt = None, o_status = ''pending''\<rparr>,
     \<lparr>products = [idB \<mapsto> productB, idA \<mapsto> productA\<lparr>p_stock := 4\<rparr>],
      carts = Map.empty,
      orders = [\<lparr>o_id = ''order1'', o_user = ''alice'', o_orderItems = [line idA 1 10],
           o_shippingAddress = ''1 Main Street'', o_paymentMethod = ''card'',
           o_paymentResult = None, o_itemsPrice = 10, o_taxPrice = 1, o_shippingPrice = 1,
           o_totalPrice = 0, o_isPaid = False, o_paidAt = None, o_isDelivered = False,
           o_deliveredAt = None, o_status = ''pending''\<rparr>]\<rparr>)"
  by (simp add: mispriced_def createOrder_def orderRequest_def shop_def alice_def
      Order_create_def product_save_def productA_def productB_def Let_def)
     (simp add: line_def)

theorem order_total_by_origin_witness:
  "(isl (fst failedSettle)
      \<and> (\<exists>ord. orders (snd failedSettle) = orders stockDropped @ [ord]
            \<and> o_totalPrice ord = o_itemsPrice ord + o_taxPrice ord + o_shippingPrice ord))
   \<and> (\<exists>ord s'. settled = (Inr ord, s') \<and> orders s' = orders shopWithCart @ [ord])
   \<and> (isl (fst twoLines)
      \<and> (\<exists>ord. orders (snd twoLines) = orders lastUnit @ [ord]
            \<and> o_itemsPrice ord = 20 \<and> o_taxPrice ord = 0 \<and> o_shippingPrice ord = 0
            \<and> o_totalPrice ord = 20))
   \<and> (\<exists>ord s'. mispriced = (Inr ord, s') \<and> orders s' = orders shop @ [ord])"
proof -
  note failing = order_total_by_origin [of gatewayPaid alice "''pi_1''" "''1 Main Street''"
      "''order1''" 1000 stockDropped _ _ alice
      "orderRequest [line idA 1 10, line idA 1 10] 20 0 0 20" "''order1''" lastUnit]
  have "orders (snd failedSettle) \<noteq> orders stockDropped"
    using failedSettle_facts by auto
  with failing have a: "\<exists>ord. orders (snd failedSettle) = orders stockDropped @ [ord]
      \<and> o_totalPrice ord = o_itemsPrice ord + o_taxPrice ord + o_shippingPrice ord"
    unfolding failedSettle_def by blast
  have "orders (snd twoLines) \<noteq> orders lastUnit"
    by (simp add: twoLines_eq lastUnit_def)
  with failing have "\<exists>ord. orders (snd twoLines) = orders lastUnit @ [ord]
      \<and> o_itemsPrice ord = ob_itemsPrice (orderRequest [line idA 1 10, line idA 1 10] 20 0 0 20)
      \<and> o_taxPrice ord = ob_taxPrice (orderRequest [line idA 1 10, line idA 1 10] 20 0 0 20)
      \<and> o_shippingPrice ord
          = ob_shippingPrice (orderRequest [line idA 1 10, line idA 1 10] 20 0 0 20)
      \<and> o_totalPrice ord = ob_totalPrice (orderRequest [line idA 1 10, line idA 1 10] 20 0 0 20)"
    unfolding twoLines_def by blast
  then have b: "\<exists>ord. orders (snd twoLines) = orders lastUnit @ [ord]
      \<and> o_itemsPrice ord = 20 \<and> o_taxPrice ord = 0 \<and> o_shippingPrice ord = 0
      \<and> o_totalPrice ord = 20"
    by (simp add: orderRequest_def)
  have fa: "isl (fst failedSettle)" using failedSettle_facts by simp
  have fb: "isl (fst twoLines)" by (simp add: twoLines_eq)
  obtain ord s' where c: "processPayment gatewayPaid alice ''pi_1'' ''1 Main Street''
      ''order1'' 1000 shopWithCart = (Inr ord, s')"
    using settled_eq by (simp add: settled_def)
  obtain ord2 s2 where d: "createOrder alice (orderRequest [line idA 1 10] 10 1 1 0)
      ''order1'' shop = (Inr ord2, s2)"
    using mispriced_eq by (simp add: mispriced_def)
  note succeeding = order_total_by_origin [of gatewayPaid alice "''pi_1''" "''1 Main Street''"
      "''order1''" 1000 shopWithCart ord s' alice "orderRequest [line idA 1 10] 10 1 1 0"
      "''order1''" shop ord2 s2]
  from succeeding c have c': "orders s' = orders shopWithCart @ [ord]" by blast
  from succeeding d have d': "orders s2 = orders shop @ [ord2]" by blast
  from a b fa fb c c' d d' show ?thesis
    unfolding settled_def mispriced_def by blast
qed

theorem createOrder_total_counterexample:
  "\<not> isl (fst mispriced)
   \<and> map o_itemsPrice (orders (snd mispriced)) = [10]
   \<and> map o_taxPrice (orders (snd mispriced)) = [1]
   \<and> map o_shippingPrice (orders (snd mispriced)) = [1]
   \<and> map o_totalPrice (orders (snd mispriced)) = [0]
   \<and> \<not> list_all price_ok (orders (snd mispriced))"
  by (simp add: mispriced_eq price_ok_def)

section \<open>Marking an order paid\<close>

lemma find_o_id: "find (\<lambda>x. o_id x = oid) xs = Some ord \<Longrightarrow> o_id ord = oid"
  by (induction xs) (auto split: if_splits)

lemma find_findIndex:
  "find P xs = Some x \<Longrightarrow> \<exists>i. findIndex P xs = Some i \<and> i < length xs \<and> xs ! i = x"
  by (induction xs) (auto split: if_splits)

lemma findIndex_update:
  "findIndex P xs = Some i \<Longrightarrow> P y \<Longrightarrow> findIndex P (xs[i := y]) = Some i"
proof (induction xs arbitrary: i)
  case Nil
  then show ?case by simp
next
  case (Cons x xs)
  then show ?case by (cases i) (auto split: if_splits)
qed

lemma find_update:
  "findIndex P xs = Some i \<Longrightarrow> P y \<Longrightarrow> find P (xs[i := y]) = Some y"
proof (induction xs arbitrary: i)
  case Nil
  then show ?case by simp
next
  case (Cons x xs)
  then show ?case by (cases i) (auto split: if_splits)
qed

lemma paymentResult_copy:
  "\<lparr>pr_id = pr_id body, pr_status = pr_status body, pr_update_time = pr_update_time body,
    pr_email_address = pr_email_address body\<rparr> = (body :: paymentResult)"
  by (cases body) simp

lemma updateOrderToPaid_found:
  assumes "find (\<lambda>x. o_id x = oid) (orders s) = Some ord0"
    and "findIndex (\<lambda>x. o_id x = oid) (orders s) = Some i"
  shows "updateOrderToPaid oid body t s =
           (Inr (ord0\<lparr>o_isPaid := True, o_paidAt := Some t, o_paymentResult := Some body\<rparr>),
            s\<lparr>orders := (orders s)
                 [i := ord0\<lparr>o_isPaid := True, o_paidAt := Some t,
                           o_paymentResult := Some body\<rparr>]\<rparr>)"
  using assms find_o_id [OF assms(1)]
  by (simp add: updateOrderToPaid_def Order_save_def Let_def paymentResult_copy)

text \<open>
  C9 (amended). Applying \<open>updateOrderToPaid\<close> again to an existing order is not a no-op but
  a last write: the answer and the state after the second application are those of
  applying the second alone. With the same payment result the second application changes
  only \<open>paidAt\<close>, which becomes the time of the re-application; no order is added.
\<close>

theorem updateOrderToPaid_reapplied:
  assumes "find (\<lambda>x. o_id x = oid) (orders s) = Some ord0"
  shows "updateOrderToPaid oid body2 t2 (snd (updateOrderToPaid oid body1 t1 s))
           = updateOrderToPaid oid body2 t2 s
       \<and> (\<exists>ord1. fst (updateOrderToPaid oid body1 t1 s) = Inr ord1
            \<and> fst (updateOrderToPaid oid body1 t2 (snd (updateOrderToPaid oid body1 t1 s)))
                = Inr (ord1\<lparr>o_paidAt := Some t2\<rparr>))
       \<and> length (orders (snd (updateOrderToPaid oid body2 t2
                    (snd (updateOrderToPaid oid body1 t1 s))))) = length (orders s)"
proof -
  from find_findIndex [OF assms] obtain i where
    i: "findIndex (\<lambda>x. o_id x = oid) (orders s) = Some i" by blast
  have id0: "o_id ord0 = oid" by (rule find_o_id [OF assms])
  define ord1 where
    "ord1 = ord0\<lparr>o_isPaid := True, o_paidAt := Some t1, o_paymentResult := Some body1\<rparr>"
  define s1 where "s1 = s\<lparr>orders := (orders s)[i := ord1]\<rparr>"
  have first: "updateOrderToPaid oid body1 t1 s = (Inr ord1, s1)"
    unfolding ord1_def s1_def by (rule updateOrderToPaid_found [OF assms i])
  have id1: "o_id ord1 = oid" by (simp add: ord1_def id0)
  have f1: "find (\<lambda>x. o_id x = oid) (orders s1) = Some ord1"
    unfolding s1_def using find_update [OF i, of ord1] id1 by simp
  have i1: "findIndex (\<lambda>x. o_id x = oid) (orders s1) = Some i"
    unfolding s1_def using findIndex_update [OF i, of ord1] id1 by simp
  have second: "updateOrderToPaid oid body t s1 =
      (Inr (ord0\<lparr>o_isPaid := True, o_paidAt := Some t, o_paymentResult := Some body\<rparr>),
       s\<lparr>orders := (orders s)
            [i := ord0\<lparr>o_isPaid := True, o_paidAt := Some t, o_paymentResult := Some body\<rparr>]\<rparr>)"
    for body t
    using updateOrderToPaid_found [OF f1 i1, of body t]
    by (simp add: s1_def ord1_def)
  have once: "updateOrderToPaid oid body2 t2 s =
      (Inr (ord0\<lparr>o_isPaid := True, o_paidAt := Some t2, o_paymentResult := Some body2\<rparr>),
       s\<lparr>orders := (orders s)
            [i := ord0\<lparr>o_isPaid := True, o_paidAt := Some t2,
                      o_paymentResult := Some body2\<rparr>]\<rparr>)"
    by (rule updateOrderToPaid_found [OF assms i])
  have a: "updateOrderToPaid oid body2 t2 (snd (updateOrderToPaid oid body1 t1 s))
           = updateOrderToPaid oid body2 t2 s"
    by (simp only: first snd_conv second once)
  have b: "fst (updateOrderToPaid oid body1 t1 s) = Inr ord1
        \<and> fst (updateOrderToPaid oid body1 t2 (snd (updateOrderToPaid oid body1 t1 s)))
            = Inr (ord1\<lparr>o_paidAt := Some t2\<rparr>)"
    by (simp add: first second) (simp add: ord1_def)
  have c: "length (orders (snd (updateOrderToPaid oid body2 t2
                    (snd (updateOrderToPaid oid body1 t1 s))))) = length (orders s)"
    by (simp add: first second)
  from a b c show ?thesis by blast
qed

lemma orderedShop_orders:
  "orders orderedShop =
     [\<lparr>o_id = ''order1'', o_user = ''alice'', o_orderItems = [line idA 1 10],
       o_shippingAddress = ''1 Main Street'', o_paymentMethod = ''card'',
       o_paymentResult = None, o_itemsPrice = 10, o_taxPrice = 7 / 10, o_shippingPrice = 10,
       o_totalPrice = 207 / 10, o_isPaid = False, o_paidAt = None, o_isDelivered = False,
       o_deliveredAt = None, o_status = ''pending''\<rparr>]"
  by (simp add: orderedShop_def createOrder_def orderRequest_def shop_def alice_def
      Order_create_def product_save_def productA_def productB_def Let_def)
     (simp add: line_def)

theorem updateOrderToPaid_reapplied_witness:
  "updateOrderToPaid ''order1'' receipt 2000 (snd (updateOrderToPaid ''order1'' receipt 1000 orderedShop))
     = updateOrderToPaid ''order1'' receipt 2000 orderedShop
   \<and> map o_paidAt (orders (snd (updateOrderToPaid ''order1'' receipt 2000 orderedShop)))
     = [Some 2000]
   \<and> length (orders (snd (updateOrderToPaid ''order1'' receipt 2000
        (snd (updateOrderToPaid ''order1'' receipt 1000 orderedShop))))) = 1"
proof -
  have found: "find (\<lambda>x. o_id x = ''order1'') (orders orderedShop) = Some (hd (orders orderedShop))"
    by (simp add: orderedShop_orders)
  have paid: "map o_paidAt (orders (snd (updateOrderToPaid ''order1'' receipt 2000 orderedShop)))
     = [Some 2000]"
    by (simp add: updateOrderToPaid_def Order_save_def orderedShop_orders Let_def)
  have len: "length (orders orderedShop) = 1"
    by (simp add: orderedShop_orders)
  note re = updateOrderToPaid_reapplied [OF found, of receipt 2000 receipt 1000]
  from re have "updateOrderToPaid ''order1'' receipt 2000
        (snd (updateOrderToPaid ''order1'' receipt 1000 orderedShop))
     = updateOrderToPaid ''order1'' receipt 2000 orderedShop"
    by (rule conjunct1)
  moreover from re have "length (orders (snd (updateOrderToPaid ''order1'' receipt 2000
        (snd (updateOrderToPaid ''order1'' receipt 1000 orderedShop)))))
      = length (orders orderedShop)"
    by blast
  then have "length (orders (snd (updateOrderToPaid ''order1'' receipt 2000
        (snd (updateOrderToPaid ''order1'' receipt 1000 orderedShop))))) = 1"
    unfolding len .
  ultimately show ?thesis using paid by blast
qed

theorem updateOrderToPaid_not_idempotent_counterexample:
  "map o_paidAt (orders (snd (updateOrderToPaid ''order1'' receipt 1000 orderedShop)))
     = [Some 1000]
   \<and> map o_paidAt (orders (snd (updateOrderToPaid ''order1'' receipt 2000
        (snd (updateOrderToPaid ''order1'' receipt 1000 orderedShop))))) = [Some 2000]
   \<and> snd (updateOrderToPaid ''order1'' receipt 2000
        (snd (updateOrderToPaid ''order1'' receipt 1000 orderedShop)))
     \<noteq> snd (updateOrderToPaid ''order1'' receipt 1000 orderedShop)"
proof -
  have a: "map o_paidAt (orders (snd (updateOrderToPaid ''order1'' receipt 1000 orderedShop)))
     = [Some 1000]"
    by (simp add: updateOrderToPaid_def Order_save_def orderedShop_orders Let_def)
  have b: "map o_paidAt (orders (snd (updateOrderToPaid ''order1'' receipt 2000
        (snd (updateOrderToPaid ''order1'' receipt 1000 orderedShop))))) = [Some 2000]"
    by (simp add: updateOrderToPaid_def Order_save_def orderedShop_orders Let_def)
  have "snd (updateOrderToPaid ''order1'' receipt 2000
        (snd (updateOrderToPaid ''order1'' receipt 1000 orderedShop)))
     \<noteq> snd (updateOrderToPaid ''order1'' receipt 1000 orderedShop)"
  proof
    assume "snd (updateOrderToPaid ''order1'' receipt 2000
        (snd (updateOrderToPaid ''order1'' receipt 1000 orderedShop)))
      = snd (updateOrderToPaid ''order1'' receipt 1000 orderedShop)"
    then have "map o_paidAt (orders (snd (updateOrderToPaid ''order1'' receipt 2000
        (snd (updateOrderToPaid ''order1'' receipt 1000 orderedShop)))))
      = map o_paidAt (orders (snd (updateOrderToPaid ''order1'' receipt 1000 orderedShop)))"
      by (simp only:)
    then have "[Some (2000::nat)] = [Some 1000]"
      unfolding a b .
    then show False by simp
  qed
  with a b show ?thesis by blast
qed

section \<open>Settlement and the webhook\<close>






section \<open>A request running alone is the sequential controller\<close>

lemma run_alone:
  "run gw (replicate n 0) (s, [t]) = (fst (exec gw n s t), [snd (exec gw n s t)])"
  by (induction n arbitrary: s t) (simp_all add: sched_step_def)

lemma exec_add: "exec gw (m + n) s t = exec gw n (fst (exec gw m s t)) (snd (exec gw m s t))"
  by (induction m arbitrary: s t) simp_all

lemma exec_Done: "exec gw n s (Done r) = (s, Done r)"
  by (induction n) simp_all

lemma exec_stock_loop:
  "\<exists>n. exec gw n s (afterStock ls ord cu) =
     (case updateStock ls s of
        (Some e, s2) \<Rightarrow> (s2, Done (Inl e))
      | (None, s2) \<Rightarrow> (s2, afterStock [] ord cu))"
proof (induction ls arbitrary: s)
  case Nil
  have "exec gw 0 s (afterStock [] ord cu) = (s, afterStock [] ord cu)" by simp
  then show ?case by (auto intro: exI [of _ 0])
next
  case (Cons l ls)
  obtain pid quantity where l: "l = (pid, quantity)" by (cases l)
  show ?case
  proof (cases "products s pid")
    case None
    with l have "exec gw 1 s (afterStock (l # ls) ord cu)
        = (case updateStock (l # ls) s of
             (Some e, s2) \<Rightarrow> (s2, Done (Inl e))
           | (None, s2) \<Rightarrow> (s2, afterStock [] ord cu))"
      by simp
    then show ?thesis by blast
  next
    case (Some p)
    show ?thesis
    proof (cases "product_save pid (p\<lparr>p_stock := p_stock p - quantity\<rparr>) s")
      case (Inl e)
      with Some l have "exec gw 2 s (afterStock (l # ls) ord cu)
        = (case updateStock (l # ls) s of
             (Some e, s2) \<Rightarrow> (s2, Done (Inl e))
           | (None, s2) \<Rightarrow> (s2, afterStock [] ord cu))"
        by (simp add: numeral_2_eq_2)
      then show ?thesis by blast
    next
      case (Inr s1)
      from Cons.IH [of s1] obtain n where
        n: "exec gw n s1 (afterStock ls ord cu)
            = (case updateStock ls s1 of
                 (Some e, s2) \<Rightarrow> (s2, Done (Inl e))
               | (None, s2) \<Rightarrow> (s2, afterStock [] ord cu))"
        by blast
      from Some Inr l have two: "exec gw 2 s (afterStock (l # ls) ord cu) = (s1, afterStock ls ord cu)"
        by (simp add: numeral_2_eq_2)
      from Some Inr l have "updateStock (l # ls) s = updateStock ls s1" by simp
      with n two have "exec gw (2 + n) s (afterStock (l # ls) ord cu)
        = (case updateStock (l # ls) s of
             (Some e, s2) \<Rightarrow> (s2, Done (Inl e))
           | (None, s2) \<Rightarrow> (s2, afterStock [] ord cu))"
        by (simp only: exec_add fst_conv snd_conv)
      then show ?thesis by blast
    qed
  qed
qed

lemma exec_verify:
  "\<exists>n. exec gw n s (Verifying u body newId orderItems item rest) =
     (case verifyStock (products s) (item # rest) of
        Some e \<Rightarrow> (s, Done (Inl e))
      | None \<Rightarrow>
         (s, Creating
               \<lparr>o_id = newId, o_user = u_id u, o_orderItems = orderItems,
                 o_shippingAddress = ob_shippingAddress body,
                 o_paymentMethod = ob_paymentMethod body,
                 o_paymentResult = None,
                 o_itemsPrice = ob_itemsPrice body, o_taxPrice = ob_taxPrice body,
                 o_shippingPrice = ob_shippingPrice body,
                 o_totalPrice = ob_totalPrice body,
                 o_isPaid = False, o_paidAt = None,
                 o_isDelivered = False, o_deliveredAt = None,
                 o_status = ''pending''\<rparr>
               (map (\<lambda>item. (oi_product item, oi_quantity item)) orderItems) None))"
  (is "\<exists>n. exec gw n s (Verifying u body newId orderItems item rest) = ?R item rest")
proof (induction rest arbitrary: item)
  case Nil
  have "exec gw 1 s (Verifying u body newId orderItems item []) = ?R item []"
    by (simp split: option.split)
  then show ?case by blast
next
  case (Cons item' rest)
  show ?case
  proof (cases "verifyStock (products s) [item]")
    case (Some e)
    then have "exec gw 1 s (Verifying u body newId orderItems item (item' # rest))
        = ?R item (item' # rest)"
      by (auto simp: exec_Done split: option.splits if_splits)
    then show ?thesis by blast
  next
    case None
    from Cons.IH [of item'] obtain n where
      n: "exec gw n s (Verifying u body newId orderItems item' rest) = ?R item' rest" by blast
    from None have one: "exec gw 1 s (Verifying u body newId orderItems item (item' # rest))
        = (s, Verifying u body newId orderItems item' rest)"
      by (auto split: option.splits if_splits)
    from None have "verifyStock (products s) (item # item' # rest)
        = verifyStock (products s) (item' # rest)"
      by (auto split: option.splits if_splits)
    with n one have "exec gw (1 + n) s (Verifying u body newId orderItems item (item' # rest))
        = ?R item (item' # rest)"
      by (simp only: exec_add fst_conv snd_conv)
    then show ?thesis by blast
  qed
qed

lemma exec_createOrder:
  "\<exists>n. exec gw n s (createOrderTask u body newId)
        = (snd (createOrder u body newId s), Done (fst (createOrder u body newId s)))"
proof (cases "ob_orderItems body")
  case None
  then have "exec gw 0 s (createOrderTask u body newId)
        = (snd (createOrder u body newId s), Done (fst (createOrder u body newId s)))"
    by (simp add: createOrderTask_def createOrder_def)
  then show ?thesis by blast
next
  case (Some ls)
  show ?thesis
  proof (cases ls)
    case Nil
    with Some have "exec gw 0 s (createOrderTask u body newId)
        = (snd (createOrder u body newId s), Done (fst (createOrder u body newId s)))"
      by (simp add: createOrderTask_def createOrder_def)
    then show ?thesis by blast
  next
    case (Cons item rest)
    define ord where
      "ord = \<lparr>o_id = newId, o_user = u_id u, o_orderItems = ls,
                 o_shippingAddress = ob_shippingAddress body,
                 o_paymentMethod = ob_paymentMethod body,
                 o_paymentResult = None,
                 o_itemsPrice = ob_itemsPrice body, o_taxPrice = ob_taxPrice body,
                 o_shippingPrice = ob_shippingPrice body,
                 o_totalPrice = ob_totalPrice body,
                 o_isPaid = False, o_paidAt = None,
                 o_isDelivered = False, o_deliveredAt = None,
                 o_status = ''pending''\<rparr>"
    define lines where "lines = map (\<lambda>item. (oi_product item, oi_quantity item)) ls"
    from Some Cons have start: "createOrderTask u body newId = Verifying u body newId ls item rest"
      by (simp add: createOrderTask_def)
    from exec_verify [of gw s u body newId ls item rest] obtain n1 where
      n1: "exec gw n1 s (Verifying u body newId ls item rest) =
        (case verifyStock (products s) ls of
           Some e \<Rightarrow> (s, Done (Inl e))
         | None \<Rightarrow> (s, Creating ord lines None))"
      unfolding Cons ord_def lines_def by blast
    show ?thesis
    proof (cases "verifyStock (products s) ls")
      case (Some e)
      with n1 start \<open>ob_orderItems body = Some ls\<close> Cons
      have "exec gw n1 s (createOrderTask u body newId)
        = (snd (createOrder u body newId s), Done (fst (createOrder u body newId s)))"
        by (simp add: createOrder_def)
      then show ?thesis by blast
    next
      case None
      from exec_stock_loop [of gw "Order_create ord s" lines ord None] obtain n2 where
        n2: "exec gw n2 (Order_create ord s) (afterStock lines ord None) =
          (case updateStock lines (Order_create ord s) of
             (Some e, s2) \<Rightarrow> (s2, Done (Inl e))
           | (None, s2) \<Rightarrow> (s2, afterStock [] ord None))"
        by blast
      from None n1 have a: "exec gw n1 s (createOrderTask u body newId)
          = (s, Creating ord lines None)"
        by (simp add: start)
      have b: "exec gw 1 s (Creating ord lines None)
          = (Order_create ord s, afterStock lines ord None)"
        by simp
      have "exec gw (n1 + (1 + n2)) s (createOrderTask u body newId)
          = (case updateStock lines (Order_create ord s) of
             (Some e, s2) \<Rightarrow> (s2, Done (Inl e))
           | (None, s2) \<Rightarrow> (s2, afterStock [] ord None))"
        by (simp only: exec_add a b n2 fst_conv snd_conv)
      also have "\<dots> = (snd (createOrder u body newId s), Done (fst (createOrder u body newId s)))"
        using None \<open>ob_orderItems body = Some ls\<close> Cons
        unfolding ord_def lines_def
        by (simp add: createOrder_def Let_def split: prod.split option.split)
      finally show ?thesis by blast
    qed
  qed
qed

lemma exec_processPayment:
  "\<exists>n. exec gw n s (processPaymentTask u pid addr newId now)
        = (snd (processPayment gw u pid addr newId now s),
           Done (fst (processPayment gw u pid addr newId now s)))"
proof -
  let ?p = "processPayment gw u pid addr newId now s"
  have early: "\<exists>n. exec gw n s (processPaymentTask u pid addr newId now) = (snd ?p, Done (fst ?p))"
    if "exec gw k s (processPaymentTask u pid addr newId now) = (snd ?p, Done (fst ?p))" for k
    using that by blast
  show ?thesis
  proof (cases "gw pid")
    case None
    show ?thesis
      by (rule early [of 1]) (simp add: processPaymentTask_def processPayment_def None)
  next
    case (Some intent)
    show ?thesis
    proof (cases "pi_status intent = ''succeeded''")
      case False
      show ?thesis
        by (rule early [of 1]) (simp add: processPaymentTask_def processPayment_def Some False)
    next
      case True
      have r: "exec gw 1 s (processPaymentTask u pid addr newId now)
          = (s, FindingCart u pid intent addr newId now)"
        by (simp add: processPaymentTask_def Some True)
      show ?thesis
      proof (cases "carts s (u_id u)")
        case None
        show ?thesis
          by (rule early [of 2])
             (simp add: processPaymentTask_def processPayment_def Some True None numeral_2_eq_2)
      next
        case (Some cart)
        note cart = Some
        show ?thesis
        proof (cases "c_items cart = []")
          case True
          show ?thesis
            by (rule early [of 2])
               (simp add: processPaymentTask_def processPayment_def \<open>gw pid = Some intent\<close>
                  \<open>pi_status intent = ''succeeded''\<close> cart True numeral_2_eq_2)
        next
          case False
          show ?thesis
          proof (cases "cartOrderItems (products s) (c_items cart)")
            case None
            show ?thesis
              by (rule early [of 2])
                 (simp add: processPaymentTask_def processPayment_def \<open>gw pid = Some intent\<close>
                    \<open>pi_status intent = ''succeeded''\<close> cart False None numeral_2_eq_2)
          next
            case (Some ois)
            define ord where
              "ord = \<lparr>o_id = newId, o_user = u_id u, o_orderItems = ois,
                          o_shippingAddress = addr,
                          o_paymentMethod = ''stripe'',
                          o_paymentResult =
                            Some \<lparr>pr_id = pid, pr_status = pi_status intent,
                                  pr_update_time = Millis now,
                                  pr_email_address = u_email u\<rparr>,
                          o_itemsPrice = c_totalPrice cart,
                          o_taxPrice = c_totalPrice cart * (7 / 100),
                          o_shippingPrice = 10,
                          o_totalPrice = c_totalPrice cart + c_totalPrice cart * (7 / 100) + 10,
                          o_isPaid = True, o_paidAt = Some now,
                          o_isDelivered = False, o_deliveredAt = None,
                          o_status = ''pending''\<rparr>"
            define lines where
              "lines = map (\<lambda>item. (ci_product item, ci_quantity item)) (c_items cart)"
            have f: "exec gw 1 s (FindingCart u pid intent addr newId now)
                = (s, Creating ord lines (Some (u_id u)))"
              unfolding ord_def lines_def by (simp add: cart False Some Let_def)
            have c: "exec gw 1 s (Creating ord lines (Some (u_id u)))
                = (Order_create ord s, afterStock lines ord (Some (u_id u)))"
              by simp
            from exec_stock_loop [of gw "Order_create ord s" lines ord "Some (u_id u)"]
            obtain n2 where
              n2: "exec gw n2 (Order_create ord s) (afterStock lines ord (Some (u_id u))) =
                (case updateStock lines (Order_create ord s) of
                   (Some e, s2) \<Rightarrow> (s2, Done (Inl e))
                 | (None, s2) \<Rightarrow> (s2, afterStock [] ord (Some (u_id u))))"
              by blast
            have upto: "exec gw (1 + (1 + (1 + n2))) s (processPaymentTask u pid addr newId now)
                = (case updateStock lines (Order_create ord s) of
                   (Some e, s2) \<Rightarrow> (s2, Done (Inl e))
                 | (None, s2) \<Rightarrow> (s2, afterStock [] ord (Some (u_id u))))"
              by (simp only: exec_add r f c n2 fst_conv snd_conv)
            obtain res s2 where loop: "updateStock lines (Order_create ord s) = (res, s2)"
              by (cases "updateStock lines (Order_create ord s)")
            have "?p = (case updateStock lines (Order_create ord s) of
                          (Some e, s2) \<Rightarrow> (Inl e, s2)
                        | (None, s2) \<Rightarrow> (Inr ord, s2\<lparr>carts := (carts s2)(u_id u := None)\<rparr>))"
              unfolding ord_def lines_def
              by (simp add: processPayment_def \<open>gw pid = Some intent\<close>
                    \<open>pi_status intent = ''succeeded''\<close> cart False Some Let_def
                  split: prod.split option.split)
            then have seq: "?p = (case res of Some e \<Rightarrow> (Inl e, s2)
                             | None \<Rightarrow> (Inr ord, s2\<lparr>carts := (carts s2)(u_id u := None)\<rparr>))"
              by (simp add: loop)
            show ?thesis
            proof (cases res)
              case (Some e)
              show ?thesis
                by (rule early [of "1 + (1 + (1 + n2))"]) (simp only: upto, simp add: loop Some seq)
            next
              case None
              have "exec gw ((1 + (1 + (1 + n2))) + 1) s (processPaymentTask u pid addr newId now)
                  = exec gw 1
                      (fst (exec gw (1 + (1 + (1 + n2))) s
                              (processPaymentTask u pid addr newId now)))
                      (snd (exec gw (1 + (1 + (1 + n2))) s
                              (processPaymentTask u pid addr newId now)))"
                by (rule exec_add)
              also have "\<dots> = (snd ?p, Done (fst ?p))"
                by (simp only: upto) (simp add: loop None seq)
              finally show ?thesis by blast
            qed
          qed
        qed
      qed
    qed
  qed
qed

text \<open>
  Scheduled alone, a request reaches the answer and the state of the sequential
  controller.
\<close>

lemma createOrder_alone:
  "\<exists>n. run gw (replicate n 0) (s, [createOrderTask u body newId])
        = (snd (createOrder u body newId s), [Done (fst (createOrder u body newId s))])"
proof -
  from exec_createOrder [of gw s u body newId] obtain n where
    "exec gw n s (createOrderTask u body newId)
        = (snd (createOrder u body newId s), Done (fst (createOrder u body newId s)))"
    by blast
  then have "run gw (replicate n 0) (s, [createOrderTask u body newId])
        = (snd (createOrder u body newId s), [Done (fst (createOrder u body newId s))])"
    by (simp add: run_alone)
  then show ?thesis by blast
qed

lemma processPayment_alone:
  "\<exists>n. run gw (replicate n 0) (s, [processPaymentTask u pid addr newId now])
        = (snd (processPayment gw u pid addr newId now s),
           [Done (fst (processPayment gw u pid addr newId now s))])"
proof -
  from exec_processPayment [of gw s u pid addr newId now] obtain n where
    "exec gw n s (processPaymentTask u pid addr newId now)
        = (snd (processPayment gw u pid addr newId now s),
           Done (fst (processPayment gw u pid addr newId now s)))"
    by blast
  then have "run gw (replicate n 0) (s, [processPaymentTask u pid addr newId now])
        = (snd (processPayment gw u pid addr newId now s),
           [Done (fst (processPayment gw u pid addr newId now s))])"
    by (simp add: run_alone)
  then show ?thesis by blast
qed

section \<open>Stock under concurrent requests\<close>

lemma product_save_nonneg:
  "stock_nonneg s \<Longrightarrow> product_save pid p s = Inr s' \<Longrightarrow> stock_nonneg s'"
  by (auto simp: product_save_def stock_nonneg_def split: if_splits)

lemma task_step_nonneg:
  assumes "stock_nonneg s"
  shows "stock_nonneg (fst (task_step gw s t))"
proof (cases t)
  case (Saving pid product rest ord cu)
  with assms show ?thesis
    by (auto split: sum.splits dest: product_save_nonneg)
next
  case (Creating ord ls cu)
  with assms show ?thesis by (simp add: Order_create_def stock_nonneg_def)
next
  case (DeletingCart uid ord)
  with assms show ?thesis by (simp add: stock_nonneg_def)
next
  case (Verifying u body newId orderItems item rest)
  with assms show ?thesis by (simp split: option.split list.split)
next
  case (Retrieving u pid addr newId now)
  with assms show ?thesis by (simp split: option.split)
next
  case (FindingCart u pid intent addr newId now)
  with assms show ?thesis by (simp add: Let_def split: option.split)
next
  case (Fetching pid quantity rest ord cu)
  with assms show ?thesis by (simp split: option.split)
next
  case (Done r)
  with assms show ?thesis by simp
qed

lemma sched_step_nonneg:
  "stock_nonneg (fst c) \<Longrightarrow> stock_nonneg (fst (sched_step gw i c))"
  by (simp add: sched_step_def task_step_nonneg)

lemma run_nonneg:
  "stock_nonneg (fst c) \<Longrightarrow> stock_nonneg (fst (run gw sched c))"
  by (induction sched arbitrary: c) (simp_all add: sched_step_nonneg)

text \<open>
  C3 (amended). Starting from a state in which no product has negative stock, after any
  interleaving of the awaited calls of any number of concurrent \<open>createOrder\<close> and
  \<open>processPayment\<close> requests, no product has negative persisted stock: every write of a
  stock goes through \<open>product.save()\<close>, whose validation rejects a negative value.
\<close>

theorem stock_never_negative:
  assumes "stock_nonneg s"
  shows "stock_nonneg (fst (run gw sched (s, ts)))"
  using assms by (simp add: run_nonneg)

lemma race_eq:
  "map succeeded (snd race) = [True, True]
   \<and> map (sum_list \<circ> map oi_quantity \<circ> o_orderItems) (orders (fst race)) = [1, 1]
   \<and> map_option p_stock (products (fst race) idA) = Some 0"
  by (simp add: race_def sched_step_def createOrderTask_def orderRequest_def lastUnit_def
      line_def alice_def bob_def productA_def Order_create_def product_save_def)

theorem stock_never_negative_witness:
  "stock_nonneg lastUnit \<and> stock_nonneg (fst race)
   \<and> map_option p_stock (products (fst race) idA) = Some 0"
proof -
  have start: "stock_nonneg lastUnit"
    by (simp add: stock_nonneg_def lastUnit_def productA_def)
  from stock_never_negative [OF start] have "stock_nonneg (fst race)"
    unfolding race_def .
  with start race_eq show ?thesis by blast
qed

theorem concurrent_orders_oversell_counterexample:
  "map_option p_stock (products lastUnit idA) = Some 1
   \<and> map succeeded (snd race) = [True, True]
   \<and> map (sum_list \<circ> map oi_quantity \<circ> o_orderItems) (orders (fst race)) = [1, 1]
   \<and> map_option p_stock (products (fst race) idA) = Some 0"
proof -
  have "map_option p_stock (products lastUnit idA) = Some 1"
    by (simp add: lastUnit_def productA_def)
  with race_eq show ?thesis by blast
qed

end
